theory Spec2Isabelle
  imports Complex_Main
begin

section \<open>Energy consumption model of carculator\_truck\<close>

text \<open>
  A shallow embedding of \<^verbatim>\<open>src/carculator_truck/energy_consumption.py\<close>.

  Conventions of the embedding:
  \<^item> float64 values are idealised as reals. From finite inputs the module can only create
    a non-finite value (inf, nan) by dividing by zero; such a value is \<open>None\<close> in a
    \<open>real option\<close> and stays non-finite under the operations applied afterwards.
  \<^item> every array of the module has four axes (time or value, year, powertrain, size); an
    array is its four axis lengths together with its element function. The labels of an
    xarray DataArray are not modelled: operands combine by position under numpy's
    broadcasting rule.
  \<^item> a Python exception is a value \<open>Inl e\<close>; a statement sequence is a chain of \<open>bnd\<close>.
\<close>

subsection \<open>Errors\<close>

text \<open>
  The first five are the Python exceptions the module can raise. The last three are the
  error kinds named by the specification; no statement of the module raises them.
\<close>

datatype pyerror =
    KeyError | TypeError | ValueError | AttributeError | IndexError
  | ConfigurationError | DomainError | ShapeMismatchError

definition bnd :: "'e + 'a \<Rightarrow> ('a \<Rightarrow> 'e + 'b) \<Rightarrow> 'e + 'b" where
  "bnd x f = (case x of Inl e \<Rightarrow> Inl e | Inr v \<Rightarrow> f v)"

subsection \<open>Four-axis arrays and numpy broadcasting\<close>

record 'a tensor4 =
  n0 :: nat
  n1 :: nat
  n2 :: nat
  n3 :: nat
  item :: "nat \<Rightarrow> nat \<Rightarrow> nat \<Rightarrow> nat \<Rightarrow> 'a"

text \<open>numpy's rule for one axis: equal lengths, or one of them is 1.\<close>

definition bdim :: "nat \<Rightarrow> nat \<Rightarrow> nat option" where
  "bdim a b = (if a = b then Some a else if a = 1 then Some b
               else if b = 1 then Some a else None)"

definition bix :: "nat \<Rightarrow> nat \<Rightarrow> nat" where
  "bix n i = (if n = 1 then 0 else i)"

text \<open>The element an operand contributes at position \<open>(i, j, k, l)\<close> of a broadcast result.\<close>

definition bget :: "'a tensor4 \<Rightarrow> nat \<Rightarrow> nat \<Rightarrow> nat \<Rightarrow> nat \<Rightarrow> 'a" where
  "bget a i j k l = item a (bix (n0 a) i) (bix (n1 a) j) (bix (n2 a) k) (bix (n3 a) l)"

definition broadcast :: "('a \<Rightarrow> 'b \<Rightarrow> 'c) \<Rightarrow> 'a tensor4 \<Rightarrow> 'b tensor4 \<Rightarrow> pyerror + 'c tensor4" where
  "broadcast f a b =
     (case (bdim (n0 a) (n0 b), bdim (n1 a) (n1 b), bdim (n2 a) (n2 b), bdim (n3 a) (n3 b)) of
        (Some d0, Some d1, Some d2, Some d3) \<Rightarrow>
          Inr \<lparr>n0 = d0, n1 = d1, n2 = d2, n3 = d3,
               item = (\<lambda>i j k l. f (bget a i j k l) (bget b i j k l))\<rparr>
      | _ \<Rightarrow> Inl ValueError)"

text \<open>
  An in-place operator (\<^verbatim>\<open>a -= b\<close>, \<^verbatim>\<open>a /= b\<close>, \<^verbatim>\<open>a *= b\<close>) writes into \<open>a\<close>: numpy
  refuses it when broadcasting would change the shape of \<open>a\<close>.
\<close>

definition inplace :: "('a \<Rightarrow> 'b \<Rightarrow> 'c) \<Rightarrow> 'a tensor4 \<Rightarrow> 'b tensor4 \<Rightarrow> pyerror + 'c tensor4" where
  "inplace f a b =
     bnd (broadcast f a b) (\<lambda>c.
       if n0 c = n0 a \<and> n1 c = n1 a \<and> n2 c = n2 a \<and> n3 c = n3 a then Inr c
       else Inl ValueError)"

text \<open>\<^verbatim>\<open>a.shape\<close>.\<close>

definition shape :: "'a tensor4 \<Rightarrow> nat \<times> nat \<times> nat \<times> nat" where
  "shape a = (n0 a, n1 a, n2 a, n3 a)"

definition map_tensor :: "('a \<Rightarrow> 'b) \<Rightarrow> 'a tensor4 \<Rightarrow> 'b tensor4" where
  "map_tensor f a =
     \<lparr>n0 = n0 a, n1 = n1 a, n2 = n2 a, n3 = n3 a, item = (\<lambda>i j k l. f (item a i j k l))\<rparr>"

text \<open>\<^verbatim>\<open>a.T\<close> reverses the order of the axes.\<close>

definition transpose_T :: "'a tensor4 \<Rightarrow> 'a tensor4" where
  "transpose_T a =
     \<lparr>n0 = n3 a, n1 = n2 a, n2 = n1 a, n3 = n0 a, item = (\<lambda>i j k l. item a l k j i)\<rparr>"

definition zeros_like :: "real tensor4 \<Rightarrow> real tensor4" where
  "zeros_like a = map_tensor (\<lambda>_. 0) a"

definition ones_like :: "real tensor4 \<Rightarrow> real tensor4" where
  "ones_like a = map_tensor (\<lambda>_. 1) a"

text \<open>
  \<^verbatim>\<open>x.reshape(-1,1,1,6)\<close> on an array given by its samples in row-major order: numpy
  raises ValueError unless the number of samples is a multiple of 6.
\<close>

definition reshape_1_1_6 :: "real list \<Rightarrow> pyerror + real tensor4" where
  "reshape_1_1_6 xs =
     (if length xs mod 6 = 0
      then Inr \<lparr>n0 = length xs div 6, n1 = 1, n2 = 1, n3 = 6,
                item = (\<lambda>i j k l. xs ! (i * 6 + l))\<rparr>
      else Inl ValueError)"

text \<open>\<^verbatim>\<open>a[2:]\<close> and \<^verbatim>\<open>a[:-2]\<close> on the first axis; both are empty when it is shorter than 2.\<close>

definition slice_from_2 :: "'a tensor4 \<Rightarrow> 'a tensor4" where
  "slice_from_2 a =
     \<lparr>n0 = n0 a - 2, n1 = n1 a, n2 = n2 a, n3 = n3 a, item = (\<lambda>i. item a (i + 2))\<rparr>"

definition slice_to_minus_2 :: "'a tensor4 \<Rightarrow> 'a tensor4" where
  "slice_to_minus_2 a =
     \<lparr>n0 = n0 a - 2, n1 = n1 a, n2 = n2 a, n3 = n3 a, item = item a\<rparr>"

text \<open>
  \<^verbatim>\<open>a[1:-1] = b\<close>: the target is rows \<open>1 \<dots> n0 a - 2\<close>; \<open>b\<close> must broadcast to the
  shape of the target.
\<close>

definition assign_1_minus_1 :: "'a tensor4 \<Rightarrow> 'a tensor4 \<Rightarrow> pyerror + 'a tensor4" where
  "assign_1_minus_1 a b =
     (if bdim (n0 b) (n0 a - 2) = Some (n0 a - 2) \<and> bdim (n1 b) (n1 a) = Some (n1 a)
         \<and> bdim (n2 b) (n2 a) = Some (n2 a) \<and> bdim (n3 b) (n3 a) = Some (n3 a)
      then Inr \<lparr>n0 = n0 a, n1 = n1 a, n2 = n2 a, n3 = n3 a,
                item = (\<lambda>i j k l. if 1 \<le> i \<and> i + 1 < n0 a then bget b (i - 1) j k l
                                   else item a i j k l)\<rparr>
      else Inl ValueError)"

subsection \<open>Construction\<close>

record EnergyConsumptionModel =
  cycle_name :: string
  gradient_name :: string
  gradient :: "real tensor4"
  cycle :: "real tensor4"
  rho_air :: real
  velocity :: "real tensor4"
  acceleration :: "real tensor4"

text \<open>
  The \<^verbatim>\<open>cycle\<close> argument: a \<^verbatim>\<open>str\<close>, a numpy array (its samples in row-major order),
  or any other object.
\<close>

datatype cycle_arg = Str string | NdArray "real list" | OtherObject

text \<open>
  \<^verbatim>\<open>__init__\<close>. The modules \<^verbatim>\<open>driving_cycles\<close> and \<^verbatim>\<open>gradients\<close> are not part of the
  sources, so \<^verbatim>\<open>get_standard_driving_cycle\<close> and \<^verbatim>\<open>get_gradients\<close> are parameters: each
  returns the samples of an array or raises.

  Both \<^verbatim>\<open>raise ("...")\<close> statements raise a \<^verbatim>\<open>str\<close>, which Python answers with
  \<^verbatim>\<open>TypeError: exceptions must derive from BaseException\<close>.
\<close>

definition init ::
  "(string \<Rightarrow> pyerror + real list) \<Rightarrow> (string \<Rightarrow> pyerror + real list) \<Rightarrow>
   cycle_arg \<Rightarrow> real \<Rightarrow> pyerror + EnergyConsumptionModel" where
  "init get_standard_driving_cycle get_gradients cycle_in rho =
     bnd (case cycle_in of
            Str name \<Rightarrow>
              (case get_standard_driving_cycle name of
                 Inl e \<Rightarrow> (if e = KeyError then Inl TypeError else Inl e)
               | Inr c \<Rightarrow> Inr (name, c))
          | NdArray c \<Rightarrow> Inr (''custom'', c)
          | OtherObject \<Rightarrow> Inl TypeError)
     (\<lambda>(name, c).
     bnd (get_gradients name) (\<lambda>g.
     bnd (reshape_1_1_6 g) (\<lambda>grad.
     bnd (reshape_1_1_6 c) (\<lambda>cyc.
     let vel = map_tensor (\<lambda>x. x * 1000 / 3600) cyc in
     bnd (broadcast (-) (slice_from_2 vel) (slice_to_minus_2 vel)) (\<lambda>diff.
     bnd (assign_1_minus_1 (zeros_like vel) (map_tensor (\<lambda>x. x / 2) diff)) (\<lambda>acc.
       Inr \<lparr>cycle_name = name, gradient_name = name, gradient = grad, cycle = cyc,
            rho_air = rho, velocity = vel, acceleration = acc\<rparr>))))))"

text \<open>The samples \<^verbatim>\<open>__init__\<close> reshapes: the array passed, or the one the registry returns.\<close>

definition resolved ::
  "(string \<Rightarrow> pyerror + real list) \<Rightarrow> cycle_arg \<Rightarrow> (string \<times> real list) option" where
  "resolved get_standard_driving_cycle cycle_in =
     (case cycle_in of
        Str name \<Rightarrow> (case get_standard_driving_cycle name of
                       Inl e \<Rightarrow> None | Inr c \<Rightarrow> Some (name, c))
      | NdArray c \<Rightarrow> Some (''custom'', c)
      | OtherObject \<Rightarrow> None)"

subsection \<open>Parameters and element-wise Python arithmetic\<close>

text \<open>
  A parameter of the two energy methods is a plain Python number or a four-axis DataArray
  with axes (size, powertrain, year, value).
\<close>

datatype pyval = Num real | DataArray "real tensor4"

text \<open>\<^verbatim>\<open>x * y\<close> on parameters; a number scales every element of an array.\<close>

definition py_mul :: "pyval \<Rightarrow> pyval \<Rightarrow> pyerror + pyval" where
  "py_mul x y =
     (case (x, y) of
        (Num a, Num b) \<Rightarrow> Inr (Num (a * b))
      | (Num a, DataArray t) \<Rightarrow> Inr (DataArray (map_tensor (\<lambda>v. a * v) t))
      | (DataArray s, Num b) \<Rightarrow> Inr (DataArray (map_tensor (\<lambda>v. v * b) s))
      | (DataArray s, DataArray t) \<Rightarrow> bnd (broadcast (*) s t) (\<lambda>r. Inr (DataArray r)))"

text \<open>\<^verbatim>\<open>x / 2\<close> on a parameter.\<close>

definition py_half :: "pyval \<Rightarrow> pyval" where
  "py_half x = (case x of Num a \<Rightarrow> Num (a / 2) | DataArray t \<Rightarrow> DataArray (map_tensor (\<lambda>v. v / 2) t))"

text \<open>\<^verbatim>\<open>x.T\<close> and \<^verbatim>\<open>x.values\<close>: a plain number has neither attribute.\<close>

definition py_T :: "pyval \<Rightarrow> pyerror + real tensor4" where
  "py_T x = (case x of Num a \<Rightarrow> Inl AttributeError | DataArray t \<Rightarrow> Inr (transpose_T t))"

definition py_values :: "pyval \<Rightarrow> pyerror + real tensor4" where
  "py_values x = (case x of Num a \<Rightarrow> Inl AttributeError | DataArray t \<Rightarrow> Inr t)"

text \<open>
  float64 division of a possibly non-finite value by a finite one: dividing by zero gives
  inf or nan (numpy warns, it does not raise), and a non-finite value stays non-finite.
\<close>

definition fdiv :: "real option \<Rightarrow> real \<Rightarrow> real option" where
  "fdiv x y = (case x of None \<Rightarrow> None | Some a \<Rightarrow> if y = 0 then None else Some (a / y))"

text \<open>
  \<^verbatim>\<open>v.sum(axis=0)[0][0]\<close>: the sum over the first axis, then index 0 on the two middle
  axes. The result is a vector over the last axis; it is kept as an array of shape
  \<open>(1, 1, 1, n3 v)\<close>, which is how numpy aligns a vector when it broadcasts.
\<close>

definition sum_axis0_0_0 :: "real tensor4 \<Rightarrow> pyerror + real tensor4" where
  "sum_axis0_0_0 v =
     (if n1 v = 0 \<or> n2 v = 0 then Inl IndexError
      else Inr \<lparr>n0 = 1, n1 = 1, n2 = 1, n3 = n3 v,
                item = (\<lambda>i j k l. \<Sum>t\<leftarrow>[0..<n0 v]. item v t 0 0 l)\<rparr>)"

subsection \<open>Auxiliary energy\<close>

text \<open>\<^verbatim>\<open>aux_energy_per_km(self, aux_power, efficiency=1)\<close>; \<open>efficiency\<close> is a float.\<close>

definition aux_energy_per_km ::
  "EnergyConsumptionModel \<Rightarrow> pyval \<Rightarrow> real \<Rightarrow> pyerror + real option tensor4" where
  "aux_energy_per_km self aux_power efficiency =
     bnd (sum_axis0_0_0 (velocity self)) (\<lambda>distance.
     bnd (py_T aux_power) (\<lambda>aux_T.
     bnd (broadcast (\<lambda>x d. fdiv (Some x) d)
            (map_tensor (\<lambda>x. x * real (n0 (velocity self))) aux_T) distance) (\<lambda>per_metre.
     let auxiliary_energy =
           map_tensor (\<lambda>x. fdiv (map_option (\<lambda>v. v * 1000) x) 1000) per_metre
     in Inr (transpose_T (map_tensor (\<lambda>x. fdiv x efficiency) auxiliary_energy)))))"

subsection \<open>Motive energy\<close>

text \<open>Line 172: \<^verbatim>\<open>(driving_mass * rr_coef * 9.81).T * ones\<close>.\<close>

definition rolling_resistance_of ::
  "EnergyConsumptionModel \<Rightarrow> pyval \<Rightarrow> pyval \<Rightarrow> pyerror + real tensor4" where
  "rolling_resistance_of self driving_mass rr_coef =
     bnd (py_mul driving_mass rr_coef) (\<lambda>a.
     bnd (py_mul a (Num 9.81)) (\<lambda>b.
     bnd (py_T b) (\<lambda>c.
     broadcast (*) c (ones_like (velocity self)))))"

text \<open>Line 174: \<^verbatim>\<open>(frontal_area * drag_coef * self.rho_air / 2).T * np.power(self.velocity, 2)\<close>.\<close>

definition air_resistance_of ::
  "EnergyConsumptionModel \<Rightarrow> pyval \<Rightarrow> pyval \<Rightarrow> pyerror + real tensor4" where
  "air_resistance_of self frontal_area drag_coef =
     bnd (py_mul frontal_area drag_coef) (\<lambda>a.
     bnd (py_mul a (Num (rho_air self))) (\<lambda>b.
     bnd (py_T (py_half b)) (\<lambda>c.
     broadcast (*) c (map_tensor (\<lambda>v. v ^ 2) (velocity self)))))"

text \<open>Line 176: \<^verbatim>\<open>(driving_mass * 9.81).T * np.sin(self.gradient)\<close>.\<close>

definition gradient_resistance_of ::
  "EnergyConsumptionModel \<Rightarrow> pyval \<Rightarrow> pyerror + real tensor4" where
  "gradient_resistance_of self driving_mass =
     bnd (py_mul driving_mass (Num 9.81)) (\<lambda>a.
     bnd (py_T a) (\<lambda>b.
     broadcast (*) b (map_tensor sin (gradient self))))"

text \<open>Line 178: \<^verbatim>\<open>self.acceleration * driving_mass.values.T\<close>.\<close>

definition inertia_of ::
  "EnergyConsumptionModel \<Rightarrow> pyval \<Rightarrow> pyerror + real tensor4" where
  "inertia_of self driving_mass =
     bnd (py_values driving_mass) (\<lambda>a.
     broadcast (*) (acceleration self) (transpose_T a))"

text \<open>Line 180: \<^verbatim>\<open>np.where(inertia < 0, inertia * -1, 0)\<close>.\<close>

definition braking_loss_of :: "real tensor4 \<Rightarrow> real tensor4" where
  "braking_loss_of inertia = map_tensor (\<lambda>x. if x < 0 then x * - 1 else 0) inertia"

text \<open>Line 182: the sum of the four resistances, added from left to right.\<close>

definition total_resistance_of ::
  "real tensor4 \<Rightarrow> real tensor4 \<Rightarrow> real tensor4 \<Rightarrow> real tensor4 \<Rightarrow> pyerror + real tensor4" where
  "total_resistance_of rolling_resistance air_resistance gradient_resistance inertia =
     bnd (broadcast (+) rolling_resistance air_resistance) (\<lambda>a.
     bnd (broadcast (+) a gradient_resistance) (\<lambda>b.
     broadcast (+) b inertia))"

text \<open>
  Lines 187--188 (and 213--214): \<^verbatim>\<open>total_resistance * self.velocity\<close>, then
  \<^verbatim>\<open>np.clip(total_power, 0, None)\<close>.
\<close>

definition clipped_total_power ::
  "EnergyConsumptionModel \<Rightarrow> real tensor4 \<Rightarrow> pyerror + real tensor4" where
  "clipped_total_power self total_resistance =
     bnd (broadcast (*) total_resistance (velocity self)) (\<lambda>total_power.
     Inr (map_tensor (\<lambda>x. max x 0) total_power))"

text \<open>
  Lines 190--191: \<^verbatim>\<open>(braking_loss * recuperation_efficiency.values.T) * self.velocity\<close>,
  then \<^verbatim>\<open>np.clip(recuperated_power, 0, motor_power.values.T*1000)\<close>, which is
  \<^verbatim>\<open>minimum(maximum(x, 0), upper)\<close>.
\<close>

definition recuperated_power_of ::
  "EnergyConsumptionModel \<Rightarrow> real tensor4 \<Rightarrow> pyval \<Rightarrow> pyval \<Rightarrow> pyerror + real tensor4" where
  "recuperated_power_of self braking_loss recuperation_efficiency motor_power =
     bnd (py_values recuperation_efficiency) (\<lambda>r.
     bnd (broadcast (*) braking_loss (transpose_T r)) (\<lambda>a.
     bnd (broadcast (*) a (velocity self)) (\<lambda>recuperated_power.
     bnd (py_values motor_power) (\<lambda>mp.
     broadcast (\<lambda>x upper. min (max x 0) upper) recuperated_power
       (map_tensor (\<lambda>v. v * 1000) (transpose_T mp))))))"

text \<open>Line 194: \<^verbatim>\<open>total_power -= recuperated_power\<close>.\<close>

definition net_total_power ::
  "real tensor4 \<Rightarrow> real tensor4 \<Rightarrow> pyerror + real tensor4" where
  "net_total_power total_power recuperated_power = inplace (-) total_power recuperated_power"

text \<open>The seven arrays returned when \<^verbatim>\<open>debug_mode\<close> is not \<^verbatim>\<open>False\<close>.\<close>

record debug_components =
  dbg_rolling_resistance :: "real tensor4"
  dbg_air_resistance :: "real tensor4"
  dbg_gradient_resistance :: "real tensor4"
  dbg_inertia :: "real tensor4"
  dbg_braking_loss :: "real tensor4"
  dbg_total_power :: "real tensor4"
  dbg_energy :: "real option tensor4"

datatype motive_result = Energy "real option tensor4" | Debug debug_components

text \<open>
  \<^verbatim>\<open>motive_energy_per_km\<close>. Python has defaults for \<^verbatim>\<open>recuperation_efficiency\<close>,
  \<^verbatim>\<open>motor_power\<close> (both the number 0) and \<^verbatim>\<open>debug_mode\<close> (\<^verbatim>\<open>False\<close>); here a caller
  that omits them passes \<open>Num 0\<close>, \<open>Num 0\<close> and \<open>False\<close>.
\<close>

definition motive_energy_per_km ::
  "EnergyConsumptionModel \<Rightarrow> pyval \<Rightarrow> pyval \<Rightarrow> pyval \<Rightarrow> pyval \<Rightarrow> pyval \<Rightarrow> pyval \<Rightarrow>
   pyval \<Rightarrow> bool \<Rightarrow> pyerror + motive_result" where
  "motive_energy_per_km self driving_mass rr_coef drag_coef frontal_area ttw_efficiency
      recuperation_efficiency motor_power debug_mode =
     bnd (sum_axis0_0_0 (velocity self)) (\<lambda>metres.
     let distance = map_tensor (\<lambda>x. x / 1000) metres in
     bnd (rolling_resistance_of self driving_mass rr_coef) (\<lambda>rolling_resistance.
     bnd (air_resistance_of self frontal_area drag_coef) (\<lambda>air_resistance.
     bnd (gradient_resistance_of self driving_mass) (\<lambda>gradient_resistance.
     bnd (inertia_of self driving_mass) (\<lambda>inertia.
     let braking_loss = braking_loss_of inertia in
     bnd (total_resistance_of rolling_resistance air_resistance gradient_resistance inertia)
       (\<lambda>total_resistance.
     if debug_mode = False then
       bnd (clipped_total_power self total_resistance) (\<lambda>total_power.
       bnd (recuperated_power_of self braking_loss recuperation_efficiency motor_power)
         (\<lambda>recuperated_power.
       bnd (net_total_power total_power recuperated_power) (\<lambda>total_power.
       bnd (inplace (\<lambda>x d. fdiv (Some x) d) total_power distance) (\<lambda>total_power.
       bnd (py_values ttw_efficiency) (\<lambda>ttw.
       bnd (inplace fdiv total_power (transpose_T ttw)) (\<lambda>total_power.
       Inr (Energy (map_tensor (\<lambda>x. fdiv x 1000) total_power))))))))
     else
       bnd (inplace (*) rolling_resistance (velocity self)) (\<lambda>rolling_resistance.
       bnd (inplace (*) air_resistance (velocity self)) (\<lambda>air_resistance.
       bnd (inplace (*) gradient_resistance (velocity self)) (\<lambda>gradient_resistance.
       bnd (inplace (*) inertia (velocity self)) (\<lambda>inertia.
       bnd (inplace (*) braking_loss (velocity self)) (\<lambda>braking_loss.
       bnd (clipped_total_power self total_resistance) (\<lambda>total_power.
       bnd (py_values ttw_efficiency) (\<lambda>ttw.
       bnd (broadcast (\<lambda>x e. fdiv (Some x) e) total_power (transpose_T ttw)) (\<lambda>energy.
       let energy = map_tensor (\<lambda>x. fdiv x 1000) energy in
       Inr (Debug \<lparr>dbg_rolling_resistance = rolling_resistance,
                   dbg_air_resistance = air_resistance,
                   dbg_gradient_resistance = gradient_resistance,
                   dbg_inertia = inertia,
                   dbg_braking_loss = braking_loss,
                   dbg_total_power = total_power,
                   dbg_energy = energy\<rparr>)))))))))))))))"

text \<open>
  What a parameter contributes at position \<open>(t, y, p, s)\<close> of a result: a number is used as
  it is, an array through its transpose and numpy's broadcasting.
\<close>

definition pget :: "pyval \<Rightarrow> nat \<Rightarrow> nat \<Rightarrow> nat \<Rightarrow> nat \<Rightarrow> real" where
  "pget x t y p s = (case x of Num a \<Rightarrow> a | DataArray a \<Rightarrow> bget (transpose_T a) t y p s)"

subsection \<open>A worked example\<close>

text \<open>
  No registered cycle, a flat road, and the five-second cycle 0, 10, 20, 10, 0 km/h for
  each of the six sizes.
\<close>

definition no_registry :: "string \<Rightarrow> pyerror + real list" where
  "no_registry name = Inl KeyError"

definition flat_gradients :: "string \<Rightarrow> pyerror + real list" where
  "flat_gradients name =
     Inr [0,0,0,0,0,0, 0,0,0,0,0,0, 0,0,0,0,0,0, 0,0,0,0,0,0, 0,0,0,0,0,0]"

definition example_cycle :: "real list" where
  "example_cycle = [0,0,0,0,0,0, 10,10,10,10,10,10, 20,20,20,20,20,20,
                    10,10,10,10,10,10, 0,0,0,0,0,0]"

text \<open>A constant auxiliary power of 1000 W for each of the six sizes.\<close>

definition example_aux_power :: "real tensor4" where
  "example_aux_power = \<lparr>n0 = 6, n1 = 1, n2 = 1, n3 = 1, item = (\<lambda>s p y v. 1000)\<rparr>"

text \<open>A parameter array with the same value for each of the six sizes.\<close>

definition const_param :: "real \<Rightarrow> real tensor4" where
  "const_param c = \<lparr>n0 = 6, n1 = 1, n2 = 1, n3 = 1, item = (\<lambda>s p y v. c)\<rparr>"


subsection \<open>Basic facts\<close>

lemma bnd_Inr_iff: "bnd x f = Inr r \<longleftrightarrow> (\<exists>v. x = Inr v \<and> f v = Inr r)"
  by (cases x) (simp_all add: bnd_def)

lemma bdim_same: "bdim n n = Some n"
  by (simp add: bdim_def)

lemma bix_bdim_left: "bdim a b = Some d \<Longrightarrow> bix a (bix d i) = bix a i"
  by (auto simp: bdim_def bix_def split: if_splits)

lemma bix_bdim_right: "bdim a b = Some d \<Longrightarrow> bix b (bix d i) = bix b i"
  by (auto simp: bdim_def bix_def split: if_splits)

lemma bix_in_range: "i < n \<Longrightarrow> bix n i = i"
  by (auto simp: bix_def)

lemma bget_in_range:
  "i < n0 a \<Longrightarrow> j < n1 a \<Longrightarrow> k < n2 a \<Longrightarrow> l < n3 a \<Longrightarrow> bget a i j k l = item a i j k l"
  by (simp add: bget_def bix_in_range)

lemma broadcast_dims:
  assumes "broadcast f a b = Inr c"
  shows "bdim (n0 a) (n0 b) = Some (n0 c)" "bdim (n1 a) (n1 b) = Some (n1 c)"
        "bdim (n2 a) (n2 b) = Some (n2 c)" "bdim (n3 a) (n3 b) = Some (n3 c)"
  using assms by (auto simp: broadcast_def split: option.splits)

lemma broadcast_item:
  assumes "broadcast f a b = Inr c"
  shows "item c i j k l = f (bget a i j k l) (bget b i j k l)"
  using assms by (auto simp: broadcast_def split: option.splits)

lemma broadcast_bget:
  assumes "broadcast f a b = Inr c"
  shows "bget c i j k l = f (bget a i j k l) (bget b i j k l)"
proof -
  note d = broadcast_dims [OF assms]
  have "bget c i j k l =
          f (bget a (bix (n0 c) i) (bix (n1 c) j) (bix (n2 c) k) (bix (n3 c) l))
            (bget b (bix (n0 c) i) (bix (n1 c) j) (bix (n2 c) k) (bix (n3 c) l))"
    by (simp add: bget_def [of c] broadcast_item [OF assms])
  also have "\<dots> = f (bget a i j k l) (bget b i j k l)"
    by (simp add: bget_def [of a] bget_def [of b]
        bix_bdim_left [OF d(1)] bix_bdim_left [OF d(2)] bix_bdim_left [OF d(3)]
        bix_bdim_left [OF d(4)] bix_bdim_right [OF d(1)] bix_bdim_right [OF d(2)]
        bix_bdim_right [OF d(3)] bix_bdim_right [OF d(4)])
  finally show ?thesis .
qed

lemma map_tensor_simps [simp]:
  "n0 (map_tensor f a) = n0 a" "n1 (map_tensor f a) = n1 a"
  "n2 (map_tensor f a) = n2 a" "n3 (map_tensor f a) = n3 a"
  "item (map_tensor f a) i j k l = f (item a i j k l)"
  by (simp_all add: map_tensor_def)

lemma map_tensor_bget [simp]: "bget (map_tensor f a) i j k l = f (bget a i j k l)"
  by (simp add: bget_def)

lemma reshape_Inr:
  assumes "reshape_1_1_6 xs = Inr a"
  shows "length xs mod 6 = 0" "n0 a = length xs div 6" "n1 a = 1" "n2 a = 1" "n3 a = 6"
        "item a i j k l = xs ! (i * 6 + l)"
  using assms by (auto simp: reshape_1_1_6_def split: if_splits)

text \<open>What a successful construction has computed, step by step.\<close>

lemma init_Inr:
  assumes "init gsd gg cycle_in rho = Inr m"
  obtains name c g diff where
    "resolved gsd cycle_in = Some (name, c)"
    "gg name = Inr g"
    "reshape_1_1_6 g = Inr (gradient m)"
    "reshape_1_1_6 c = Inr (cycle m)"
    "velocity m = map_tensor (\<lambda>x. x * 1000 / 3600) (cycle m)"
    "broadcast (-) (slice_from_2 (velocity m)) (slice_to_minus_2 (velocity m)) = Inr diff"
    "assign_1_minus_1 (zeros_like (velocity m)) (map_tensor (\<lambda>x. x / 2) diff)
       = Inr (acceleration m)"
    "rho_air m = rho" "cycle_name m = name" "gradient_name m = name"
proof -
  from assms obtain p where
    first: "(case cycle_in of
            Str name \<Rightarrow>
              (case gsd name of
                 Inl e \<Rightarrow> (if e = KeyError then Inl TypeError else Inl e)
               | Inr c \<Rightarrow> Inr (name, c))
          | NdArray c \<Rightarrow> Inr (''custom'', c)
          | OtherObject \<Rightarrow> Inl TypeError) = Inr p"
    and rest0: "(\<lambda>(name, c).
     bnd (gg name) (\<lambda>g.
     bnd (reshape_1_1_6 g) (\<lambda>grad.
     bnd (reshape_1_1_6 c) (\<lambda>cyc.
     let vel = map_tensor (\<lambda>x. x * 1000 / 3600) cyc in
     bnd (broadcast (-) (slice_from_2 vel) (slice_to_minus_2 vel)) (\<lambda>diff.
     bnd (assign_1_minus_1 (zeros_like vel) (map_tensor (\<lambda>x. x / 2) diff)) (\<lambda>acc.
       Inr \<lparr>cycle_name = name, gradient_name = name, gradient = grad, cycle = cyc,
            rho_air = rho, velocity = vel, acceleration = acc\<rparr>)))))) p = Inr m"
    unfolding init_def bnd_Inr_iff by blast
  obtain name c where p: "p = (name, c)" by (cases p)
  from first have r: "resolved gsd cycle_in = Some (name, c)"
    unfolding resolved_def p
    by (auto split: cycle_arg.splits sum.splits if_splits)
  from rest0 have rest: "bnd (gg name) (\<lambda>g.
     bnd (reshape_1_1_6 g) (\<lambda>grad.
     bnd (reshape_1_1_6 c) (\<lambda>cyc.
     let vel = map_tensor (\<lambda>x. x * 1000 / 3600) cyc in
     bnd (broadcast (-) (slice_from_2 vel) (slice_to_minus_2 vel)) (\<lambda>diff.
     bnd (assign_1_minus_1 (zeros_like vel) (map_tensor (\<lambda>x. x / 2) diff)) (\<lambda>acc.
       Inr \<lparr>cycle_name = name, gradient_name = name, gradient = grad, cycle = cyc,
            rho_air = rho, velocity = vel, acceleration = acc\<rparr>))))) = Inr m"
    unfolding p prod.case .
  from rest obtain g grad cyc diff acc where
    "gg name = Inr g" "reshape_1_1_6 g = Inr grad" "reshape_1_1_6 c = Inr cyc"
    "broadcast (-) (slice_from_2 (map_tensor (\<lambda>x. x * 1000 / 3600) cyc))
        (slice_to_minus_2 (map_tensor (\<lambda>x. x * 1000 / 3600) cyc)) = Inr diff"
    "assign_1_minus_1 (zeros_like (map_tensor (\<lambda>x. x * 1000 / 3600) cyc))
        (map_tensor (\<lambda>x. x / 2) diff) = Inr acc"
    "m = \<lparr>cycle_name = name, gradient_name = name, gradient = grad, cycle = cyc,
            rho_air = rho, velocity = map_tensor (\<lambda>x. x * 1000 / 3600) cyc,
            acceleration = acc\<rparr>"
    unfolding bnd_Inr_iff Let_def by blast
  with r that show thesis by simp
qed

lemma assign_Inr:
  assumes "assign_1_minus_1 a b = Inr c"
  shows "n0 c = n0 a" "n1 c = n1 a" "n2 c = n2 a" "n3 c = n3 a"
    "item c i j k l = (if 1 \<le> i \<and> i + 1 < n0 a then bget b (i - 1) j k l else item a i j k l)"
  using assms by (auto simp: assign_1_minus_1_def split: if_splits)

lemma init_dims:
  assumes "init gsd gg cycle_in rho = Inr m"
  shows "n1 (cycle m) = 1 \<and> n2 (cycle m) = 1 \<and> n3 (cycle m) = 6"
    "n0 (velocity m) = n0 (cycle m) \<and> n1 (velocity m) = 1 \<and> n2 (velocity m) = 1 \<and> n3 (velocity m) = 6"
    "n0 (acceleration m) = n0 (cycle m) \<and> n1 (acceleration m) = 1 \<and> n2 (acceleration m) = 1 \<and> n3 (acceleration m) = 6"
    "n1 (gradient m) = 1 \<and> n2 (gradient m) = 1 \<and> n3 (gradient m) = 6"
proof -
  from assms obtain name :: string and c g :: "real list" and diff where h:
    "reshape_1_1_6 g = Inr (gradient m)"
    "reshape_1_1_6 c = Inr (cycle m)"
    "velocity m = map_tensor (\<lambda>x. x * 1000 / 3600) (cycle m)"
    "assign_1_minus_1 (zeros_like (velocity m)) (map_tensor (\<lambda>x. x / 2) diff)
       = Inr (acceleration m)"
    by (rule init_Inr)
  show "n1 (cycle m) = 1 \<and> n2 (cycle m) = 1 \<and> n3 (cycle m) = 6"
    using reshape_Inr [OF h(2)] by simp
  then show "n0 (velocity m) = n0 (cycle m) \<and> n1 (velocity m) = 1 \<and> n2 (velocity m) = 1 \<and> n3 (velocity m) = 6"
    by (simp add: h(3))
  then show "n0 (acceleration m) = n0 (cycle m) \<and> n1 (acceleration m) = 1 \<and> n2 (acceleration m) = 1 \<and> n3 (acceleration m) = 6"
    using assign_Inr(1-4) [OF h(4)] by (simp add: zeros_like_def)
  show "n1 (gradient m) = 1 \<and> n2 (gradient m) = 1 \<and> n3 (gradient m) = 6"
    using reshape_Inr [OF h(1)] by simp
qed

lemma example_init_ok: "\<exists>m. init no_registry flat_gradients (NdArray example_cycle) (1204 / 1000) = Inr m"
  by (simp add: init_def bnd_def flat_gradients_def example_cycle_def reshape_1_1_6_def
      broadcast_def bdim_def assign_1_minus_1_def slice_from_2_def slice_to_minus_2_def
      zeros_like_def Let_def)

lemma init_samples:
  assumes "init gsd gg cycle_in rho = Inr m"
  obtains name c g where
    "resolved gsd cycle_in = Some (name, c)" "gg name = Inr g"
    "length c mod 6 = 0" "length g mod 6 = 0"
    "n0 (cycle m) = length c div 6" "n0 (gradient m) = length g div 6"
    "\<And>i j k l. item (cycle m) i j k l = c ! (i * 6 + l)"
    "\<And>i j k l. item (gradient m) i j k l = g ! (i * 6 + l)"
proof -
  from assms obtain name c g and diff :: "real tensor4" where h:
    "resolved gsd cycle_in = Some (name, c)"
    "gg name = Inr g"
    "reshape_1_1_6 g = Inr (gradient m)"
    "reshape_1_1_6 c = Inr (cycle m)"
    by (rule init_Inr)
  show thesis
    using h(1,2) reshape_Inr [OF h(3)] reshape_Inr [OF h(4)] by (intro that) simp_all
qed

lemma init_velocity_item:
  assumes "init gsd gg cycle_in rho = Inr m"
  shows "item (velocity m) i j k l = item (cycle m) i j k l * 1000 / 3600"
proof -
  from assms obtain name :: string and c g :: "real list" and diff :: "real tensor4" where
    "velocity m = map_tensor (\<lambda>x. x * 1000 / 3600) (cycle m)"
    by (rule init_Inr)
  then show ?thesis by simp
qed

lemma init_acceleration:
  assumes "init gsd gg cycle_in rho = Inr m"
  shows "n0 (acceleration m) = n0 (velocity m) \<and>
    (\<forall>j k l. 0 < n0 (acceleration m) \<longrightarrow>
        item (acceleration m) 0 j k l = 0 \<and>
        item (acceleration m) (n0 (acceleration m) - 1) j k l = 0) \<and>
    (\<forall>i j k l. 1 \<le> i \<and> i + 1 < n0 (acceleration m) \<and> j < 1 \<and> k < 1 \<and> l < 6 \<longrightarrow>
        item (acceleration m) i j k l =
          (item (velocity m) (i + 1) j k l - item (velocity m) (i - 1) j k l) / 2)"
proof -
  from assms obtain name :: string and c g :: "real list" and diff where h:
    "broadcast (-) (slice_from_2 (velocity m)) (slice_to_minus_2 (velocity m)) = Inr diff"
    "assign_1_minus_1 (zeros_like (velocity m)) (map_tensor (\<lambda>x. x / 2) diff)
       = Inr (acceleration m)"
    by (rule init_Inr)
  note d = init_dims [OF assms]
  note a = assign_Inr [OF h(2)]
  have len: "n0 (acceleration m) = n0 (velocity m)"
    using d by simp
  have edge: "item (acceleration m) 0 j k l = 0 \<and>
        item (acceleration m) (n0 (acceleration m) - 1) j k l = 0"
    if "0 < n0 (acceleration m)" for j k l
    using that by (simp add: a(5) zeros_like_def len)
  have inner: "item (acceleration m) i j k l =
          (item (velocity m) (i + 1) j k l - item (velocity m) (i - 1) j k l) / 2"
    if "1 \<le> i" "i + 1 < n0 (acceleration m)" "j < 1" "k < 1" "l < 6" for i j k l
  proof -
    have ix: "bix (n0 (velocity m) - 2) (i - 1) = i - 1"
      using that len unfolding bix_def by (cases "n0 (velocity m) - 2 = 1") simp_all
    have i2: "i - 1 + 2 = i + 1"
      using that by simp
    have jkl: "bix (n1 (velocity m)) j = j" "bix (n2 (velocity m)) k = k"
      "bix (n3 (velocity m)) l = l"
      using that d by (simp_all add: bix_def)
    have "item (acceleration m) i j k l = bget diff (i - 1) j k l / 2"
      using that by (simp add: a(5) zeros_like_def len)
    also have "bget diff (i - 1) j k l =
        bget (slice_from_2 (velocity m)) (i - 1) j k l -
        bget (slice_to_minus_2 (velocity m)) (i - 1) j k l"
      by (rule broadcast_bget [OF h(1)])
    also have "bget (slice_from_2 (velocity m)) (i - 1) j k l = item (velocity m) (i + 1) j k l"
      using ix i2 jkl by (simp add: bget_def slice_from_2_def)
    also have "bget (slice_to_minus_2 (velocity m)) (i - 1) j k l = item (velocity m) (i - 1) j k l"
      using ix jkl by (simp add: bget_def slice_to_minus_2_def)
    finally show ?thesis .
  qed
  from len edge inner show ?thesis by blast
qed


text \<open>Both \<^verbatim>\<open>raise\<close> statements of the constructor end in TypeError, whatever the registries.\<close>

lemma init_raises_TypeError:
  "gsd name = Inl KeyError \<Longrightarrow> init gsd gg (Str name) rho = Inl TypeError"
  "init gsd gg OtherObject rho = Inl TypeError"
  by (simp_all add: init_def bnd_def)

subsection \<open>Claims about construction\<close>

text \<open>
  Claim C5. After a successful construction the acceleration series has the time axis of
  the velocity series; its first and its last time step are 0 (for each of the six
  sizes), and at every interior time step \<open>i\<close> it is
  \<open>(velocity[i+1] - velocity[i-1]) / 2\<close>. The index is the index of the time axis (the
  first axis) of the reshaped arrays, as in \<^verbatim>\<open>self.acceleration[1:-1]\<close>.
\<close>

theorem acceleration_centered_difference:
  assumes "init gsd gg cycle_in rho = Inr m"
  shows "n0 (acceleration m) = n0 (velocity m) \<and>
    (\<forall>j k l. 0 < n0 (acceleration m) \<longrightarrow>
        item (acceleration m) 0 j k l = 0 \<and>
        item (acceleration m) (n0 (acceleration m) - 1) j k l = 0) \<and>
    (\<forall>i j k l. 1 \<le> i \<and> i + 1 < n0 (acceleration m) \<and> j < 1 \<and> k < 1 \<and> l < 6 \<longrightarrow>
        item (acceleration m) i j k l =
          (item (velocity m) (i + 1) j k l - item (velocity m) (i - 1) j k l) / 2)"
  using assms by (rule init_acceleration)

theorem acceleration_centered_difference_witness:
  "\<exists>m. init no_registry flat_gradients (NdArray example_cycle) (1204 / 1000) = Inr m \<and>
       n0 (acceleration m) = 5 \<and>
       item (acceleration m) 0 0 0 0 = 0 \<and> item (acceleration m) 4 0 0 0 = 0 \<and>
       item (acceleration m) 1 0 0 0 = 25 / 9"
proof -
  obtain m where m: "init no_registry flat_gradients (NdArray example_cycle) (1204 / 1000) = Inr m"
    using example_init_ok by blast
  from m obtain name c and g :: "real list" where r:
    "resolved no_registry (NdArray example_cycle) = Some (name, c)"
    "n0 (cycle m) = length c div 6"
    "\<And>i j k l. item (cycle m) i j k l = c ! (i * 6 + l)"
    by (rule init_samples) auto
  from r(1) have ce: "c = example_cycle" by (simp add: resolved_def)
  have c: "n0 (cycle m) = 5"
    "\<And>i j k l. item (cycle m) i j k l = example_cycle ! (i * 6 + l)"
    using r(2,3) by (simp_all add: ce example_cycle_def)
  have n: "n0 (velocity m) = 5"
    using init_dims(2) [OF m] c(1) by simp
  have v: "item (velocity m) (1 - 1) 0 0 0 = 0" "item (velocity m) (1 + 1) 0 0 0 = 50 / 9"
    by (simp_all add: init_velocity_item [OF m] c(2) example_cycle_def)
  from acceleration_centered_difference [OF m] have
    a: "n0 (acceleration m) = n0 (velocity m)"
    and e: "\<forall>j k l. 0 < n0 (acceleration m) \<longrightarrow>
        item (acceleration m) 0 j k l = 0 \<and>
        item (acceleration m) (n0 (acceleration m) - 1) j k l = 0"
    and i: "\<forall>i j k l. 1 \<le> i \<and> i + 1 < n0 (acceleration m) \<and> j < 1 \<and> k < 1 \<and> l < 6 \<longrightarrow>
        item (acceleration m) i j k l =
          (item (velocity m) (i + 1) j k l - item (velocity m) (i - 1) j k l) / 2"
    by blast+
  have a5: "n0 (acceleration m) = 5" using a n by simp
  have e0: "item (acceleration m) 0 0 0 0 = 0 \<and> item (acceleration m) 4 0 0 0 = 0"
    using e [rule_format, of 0 0 0] a5 by simp
  have i1: "item (acceleration m) 1 0 0 0 = 25 / 9"
  proof -
    have "item (acceleration m) 1 0 0 0 =
        (item (velocity m) (1 + 1) 0 0 0 - item (velocity m) (1 - 1) 0 0 0) / 2"
      using i a5 by simp
    then show ?thesis unfolding v by simp
  qed
  from m a5 e0 i1 show ?thesis by blast
qed

text \<open>
  Claim C6. After a successful construction every sample of the velocity series is the
  corresponding sample of the resolved cycle times 1000 / 3600, and the velocity series
  has as many samples as the input cycle (its four axis lengths multiply to the number of
  samples, and they are the axis lengths of the reshaped cycle).
\<close>

theorem velocity_is_converted_cycle:
  assumes "init gsd gg cycle_in rho = Inr m"
  shows "\<exists>name c. resolved gsd cycle_in = Some (name, c) \<and>
     n0 (velocity m) * n1 (velocity m) * n2 (velocity m) * n3 (velocity m) = length c \<and>
     (\<forall>i < length c. item (velocity m) (i div 6) 0 0 (i mod 6) = c ! i * 1000 / 3600) \<and>
     n0 (velocity m) = n0 (cycle m) \<and> n1 (velocity m) = n1 (cycle m) \<and>
     n2 (velocity m) = n2 (cycle m) \<and> n3 (velocity m) = n3 (cycle m) \<and>
     (\<forall>i j k l. item (velocity m) i j k l = item (cycle m) i j k l * 1000 / 3600)"
proof -
  from assms obtain name c and g :: "real list" where h:
    "resolved gsd cycle_in = Some (name, c)" "length c mod 6 = 0"
    "n0 (cycle m) = length c div 6"
    "\<And>i j k l. item (cycle m) i j k l = c ! (i * 6 + l)"
    by (rule init_samples) auto
  note d = init_dims [OF assms]
  have size: "n0 (velocity m) * n1 (velocity m) * n2 (velocity m) * n3 (velocity m) = length c"
    using d h(2,3) by auto
  have flat: "item (velocity m) (i div 6) 0 0 (i mod 6) = c ! i * 1000 / 3600" for i
    by (simp add: init_velocity_item [OF assms] h(4))
  show ?thesis
    using h(1) size flat d init_velocity_item [OF assms] by auto
qed

theorem velocity_is_converted_cycle_witness:
  "\<exists>m. init no_registry flat_gradients (NdArray example_cycle) (1204 / 1000) = Inr m \<and>
       n0 (velocity m) * n1 (velocity m) * n2 (velocity m) * n3 (velocity m) = 30 \<and>
       item (velocity m) 1 0 0 2 = 10 * 1000 / 3600"
proof -
  obtain m where m: "init no_registry flat_gradients (NdArray example_cycle) (1204 / 1000) = Inr m"
    using example_init_ok by blast
  from velocity_is_converted_cycle [OF m] obtain name c where h:
    "resolved no_registry (NdArray example_cycle) = Some (name, c)"
    "n0 (velocity m) * n1 (velocity m) * n2 (velocity m) * n3 (velocity m) = length c"
    "\<forall>i < length c. item (velocity m) (i div 6) 0 0 (i mod 6) = c ! i * 1000 / 3600"
    by blast
  from h(1) have c: "c = example_cycle" by (simp add: resolved_def)
  have "item (velocity m) 1 0 0 2 = 10 * 1000 / 3600"
    using h(3) [rule_format, of 8] by (simp add: c example_cycle_def)
  with m h(2) show ?thesis
    by (intro exI [of _ m]) (simp add: c example_cycle_def)
qed

text \<open>
  Claim C7. With a name that the registry does not know (it raises KeyError), and with
  an argument that is neither a string nor an array, construction fails and produces no
  model; the exception is TypeError, because each of the two \<^verbatim>\<open>raise\<close> statements
  raises a string, not the ConfigurationError of the specification.
\<close>

theorem unresolvable_cycle_raises_TypeError:
  "init no_registry flat_gradients (Str ''nonexistent-cycle-xyz'') (1204 / 1000) = Inl TypeError \<and>
   init no_registry flat_gradients OtherObject (1204 / 1000) = Inl TypeError"
  by (simp add: init_raises_TypeError no_registry_def)

text \<open>
  Claim C10. A construction that succeeds has reshaped a cycle and a gradient series
  whose numbers of samples are multiples of 6; cycle, velocity and acceleration then have
  shape (number of cycle samples / 6, 1, 1, 6), and the gradient has shape
  (number of gradient samples / 6, 1, 1, 6). A resolved cycle whose number of samples is
  not a multiple of 6 makes construction fail (with numpy's ValueError when the gradient
  series itself was found and reshaped).
\<close>

theorem construction_needs_multiple_of_6:
  "(init gsd gg cycle_in rho = Inr m \<longrightarrow>
      (\<exists>name c g. resolved gsd cycle_in = Some (name, c) \<and> gg name = Inr g \<and>
         length c mod 6 = 0 \<and> length g mod 6 = 0 \<and>
         n0 (cycle m) = length c div 6 \<and> n1 (cycle m) = 1 \<and> n2 (cycle m) = 1 \<and> n3 (cycle m) = 6 \<and>
         n0 (velocity m) = length c div 6 \<and> n1 (velocity m) = 1 \<and> n2 (velocity m) = 1 \<and>
         n3 (velocity m) = 6 \<and>
         n0 (acceleration m) = length c div 6 \<and> n1 (acceleration m) = 1 \<and>
         n2 (acceleration m) = 1 \<and> n3 (acceleration m) = 6 \<and>
         n0 (gradient m) = length g div 6 \<and> n1 (gradient m) = 1 \<and> n2 (gradient m) = 1 \<and>
         n3 (gradient m) = 6)) \<and>
   (resolved gsd cycle_in = Some (name', c') \<and> length c' mod 6 \<noteq> 0 \<longrightarrow>
      (\<exists>e. init gsd gg cycle_in rho = Inl e)) \<and>
   (resolved gsd cycle_in = Some (name', c') \<and> gg name' = Inr g' \<and> length g' mod 6 = 0 \<and>
      length c' mod 6 \<noteq> 0 \<longrightarrow> init gsd gg cycle_in rho = Inl ValueError)"
proof (intro conjI impI)
  assume a: "init gsd gg cycle_in rho = Inr m"
  from a obtain name c g where h:
    "resolved gsd cycle_in = Some (name, c)" "gg name = Inr g"
    "length c mod 6 = 0" "length g mod 6 = 0"
    "n0 (cycle m) = length c div 6" "n0 (gradient m) = length g div 6"
    by (rule init_samples) auto
  show "\<exists>name c g. resolved gsd cycle_in = Some (name, c) \<and> gg name = Inr g \<and>
         length c mod 6 = 0 \<and> length g mod 6 = 0 \<and>
         n0 (cycle m) = length c div 6 \<and> n1 (cycle m) = 1 \<and> n2 (cycle m) = 1 \<and> n3 (cycle m) = 6 \<and>
         n0 (velocity m) = length c div 6 \<and> n1 (velocity m) = 1 \<and> n2 (velocity m) = 1 \<and>
         n3 (velocity m) = 6 \<and>
         n0 (acceleration m) = length c div 6 \<and> n1 (acceleration m) = 1 \<and>
         n2 (acceleration m) = 1 \<and> n3 (acceleration m) = 6 \<and>
         n0 (gradient m) = length g div 6 \<and> n1 (gradient m) = 1 \<and> n2 (gradient m) = 1 \<and>
         n3 (gradient m) = 6"
    using h init_dims [OF a] by (intro exI [of _ name] exI [of _ c] exI [of _ g]) simp
next
  assume a: "resolved gsd cycle_in = Some (name', c') \<and> length c' mod 6 \<noteq> 0"
  show "\<exists>e. init gsd gg cycle_in rho = Inl e"
  proof (cases "init gsd gg cycle_in rho")
    case (Inl e)
    then show ?thesis by blast
  next
    case (Inr m')
    from Inr obtain name c and g :: "real list" where
      "resolved gsd cycle_in = Some (name, c)" "length c mod 6 = 0"
      by (rule init_samples) auto
    with a show ?thesis by simp
  qed
next
  assume a: "resolved gsd cycle_in = Some (name', c') \<and> gg name' = Inr g' \<and>
    length g' mod 6 = 0 \<and> length c' mod 6 \<noteq> 0"
  then show "init gsd gg cycle_in rho = Inl ValueError"
    by (auto simp: init_def resolved_def bnd_def reshape_1_1_6_def
        split: cycle_arg.splits sum.splits)
qed

theorem construction_needs_multiple_of_6_witness:
  "(\<exists>m. init no_registry flat_gradients (NdArray example_cycle) (1204 / 1000) = Inr m \<and>
        n0 (velocity m) = 5 \<and> n0 (acceleration m) = 5 \<and> n0 (gradient m) = 5) \<and>
   init no_registry flat_gradients (NdArray [10, 20, 30, 20, 10]) (1204 / 1000) = Inl ValueError"
proof -
  obtain m where m: "init no_registry flat_gradients (NdArray example_cycle) (1204 / 1000) = Inr m"
    using example_init_ok by blast
  note t = construction_needs_multiple_of_6
    [of no_registry flat_gradients "NdArray example_cycle" "1204 / 1000" m]
  from t m obtain name c g where h:
    "resolved no_registry (NdArray example_cycle) = Some (name, c)"
    "flat_gradients name = Inr g"
    "n0 (velocity m) = length c div 6" "n0 (acceleration m) = length c div 6"
    "n0 (gradient m) = length g div 6"
    by blast
  have 1: "n0 (velocity m) = 5 \<and> n0 (acceleration m) = 5 \<and> n0 (gradient m) = 5"
    using h by (auto simp: resolved_def example_cycle_def flat_gradients_def)
  have 2: "init no_registry flat_gradients (NdArray [10, 20, 30, 20, 10]) (1204 / 1000)
      = Inl ValueError"
    using construction_needs_multiple_of_6
      [where gsd = no_registry and gg = flat_gradients
        and cycle_in = "NdArray [10, 20, 30, 20, 10]" and rho = "1204 / 1000" and m = m
        and name' = "''custom''" and c' = "[10, 20, 30, 20, 10]"
        and g' = "[0,0,0,0,0,0, 0,0,0,0,0,0, 0,0,0,0,0,0, 0,0,0,0,0,0, 0,0,0,0,0,0]"]
    by (simp add: resolved_def flat_gradients_def)
  from m 1 2 show ?thesis by blast
qed

subsection \<open>Facts about the array operations\<close>

lemma bnd_Inr [simp]: "bnd (Inr v) f = f v"
  by (simp add: bnd_def)

lemma bnd_Inl [simp]: "bnd (Inl e) f = Inl e"
  by (simp add: bnd_def)

lemma bdim_one [simp]: "bdim n 1 = Some n" "bdim 1 n = Some n" "bdim n (Suc 0) = Some n"
  "bdim (Suc 0) n = Some n" "bdim n n = Some n"
  by (auto simp: bdim_def)

lemma broadcastI:
  assumes "bdim (n0 a) (n0 b) = Some d0" "bdim (n1 a) (n1 b) = Some d1"
    "bdim (n2 a) (n2 b) = Some d2" "bdim (n3 a) (n3 b) = Some d3"
  shows "broadcast f a b = Inr \<lparr>n0 = d0, n1 = d1, n2 = d2, n3 = d3,
               item = (\<lambda>i j k l. f (bget a i j k l) (bget b i j k l))\<rparr>"
  using assms by (simp add: broadcast_def)

lemma transpose_T_simps [simp]:
  "n0 (transpose_T a) = n3 a" "n1 (transpose_T a) = n2 a"
  "n2 (transpose_T a) = n1 a" "n3 (transpose_T a) = n0 a"
  "item (transpose_T a) i j k l = item a l k j i"
  by (simp_all add: transpose_T_def)

lemma transpose_T_bget [simp]: "bget (transpose_T a) i j k l = bget a l k j i"
  by (simp add: bget_def)

lemma sum_axis0_0_0_init:
  assumes "init gsd gg cycle_in rho = Inr m"
  shows "sum_axis0_0_0 (velocity m) =
     Inr \<lparr>n0 = 1, n1 = 1, n2 = 1, n3 = 6,
          item = (\<lambda>i j k l. \<Sum>t\<leftarrow>[0..<n0 (velocity m)]. item (velocity m) t 0 0 l)\<rparr>"
  using init_dims(2) [OF assms] by (simp add: sum_axis0_0_0_def)


lemma inplace_Inr:
  assumes "inplace f a b = Inr c"
  shows "broadcast f a b = Inr c" "n0 c = n0 a" "n1 c = n1 a" "n2 c = n2 a" "n3 c = n3 a"
  using assms by (auto simp: inplace_def bnd_Inr_iff split: if_splits)

lemma inplace_bget:
  assumes "inplace f a b = Inr c"
  shows "bget c i j k l = f (bget a i j k l) (bget b i j k l)"
  by (rule broadcast_bget [OF inplace_Inr(1) [OF assms]])

lemma pget_Num [simp]: "pget (Num a) t y p s = a"
  by (simp add: pget_def)

lemma pget_DataArray [simp]: "pget (DataArray a) t y p s = bget a s p y t"
  by (simp add: pget_def)

lemma py_mul_pget:
  assumes "py_mul x y = Inr z"
  shows "pget z t yr p s = pget x t yr p s * pget y t yr p s"
proof (cases x)
  case (Num a)
  with assms show ?thesis by (cases y) (auto simp: py_mul_def)
next
  case xa: (DataArray a)
  show ?thesis
  proof (cases y)
    case (Num b)
    with assms xa show ?thesis by (auto simp: py_mul_def)
  next
    case (DataArray b)
    with assms xa obtain r where "broadcast (*) a b = Inr r" "z = pyval.DataArray r"
      by (auto simp: py_mul_def bnd_Inr_iff)
    with xa DataArray show ?thesis by (simp add: broadcast_bget)
  qed
qed

lemma py_half_pget: "pget (py_half x) t y p s = pget x t y p s / 2"
  by (cases x) (simp_all add: py_half_def)

lemma py_T_bget:
  assumes "py_T x = Inr a"
  shows "bget a t y p s = pget x t y p s"
  using assms by (cases x) (auto simp: py_T_def)

lemma py_values_bget:
  assumes "py_values x = Inr a"
  shows "bget (transpose_T a) t y p s = pget x t y p s"
  using assms by (cases x) (auto simp: py_values_def)

lemma rolling_resistance_bget:
  assumes "rolling_resistance_of m driving_mass rr_coef = Inr r"
  shows "bget r t y p s = pget driving_mass t y p s * pget rr_coef t y p s * 9.81 * 1"
proof -
  from assms obtain a b c where h: "py_mul driving_mass rr_coef = Inr a"
    "py_mul a (Num 9.81) = Inr b" "py_T b = Inr c"
    "broadcast (*) c (ones_like (velocity m)) = Inr r"
    unfolding rolling_resistance_of_def bnd_Inr_iff by blast
  show ?thesis
    unfolding broadcast_bget [OF h(4)] py_T_bget [OF h(3)] py_mul_pget [OF h(2)]
      py_mul_pget [OF h(1)]
    by (simp add: ones_like_def)
qed

lemma air_resistance_bget:
  assumes "air_resistance_of m frontal_area drag_coef = Inr r"
  shows "bget r t y p s =
    pget frontal_area t y p s * pget drag_coef t y p s * rho_air m / 2
      * (bget (velocity m) t y p s) ^ 2"
proof -
  from assms obtain a b c where h: "py_mul frontal_area drag_coef = Inr a"
    "py_mul a (Num (rho_air m)) = Inr b" "py_T (py_half b) = Inr c"
    "broadcast (*) c (map_tensor (\<lambda>v. v ^ 2) (velocity m)) = Inr r"
    unfolding air_resistance_of_def bnd_Inr_iff by blast
  show ?thesis
    unfolding broadcast_bget [OF h(4)] py_T_bget [OF h(3)] py_half_pget py_mul_pget [OF h(2)]
      py_mul_pget [OF h(1)]
    by simp
qed

lemma gradient_resistance_bget:
  assumes "gradient_resistance_of m driving_mass = Inr r"
  shows "bget r t y p s = pget driving_mass t y p s * 9.81 * sin (bget (gradient m) t y p s)"
proof -
  from assms obtain a b where h: "py_mul driving_mass (Num 9.81) = Inr a" "py_T a = Inr b"
    "broadcast (*) b (map_tensor sin (gradient m)) = Inr r"
    unfolding gradient_resistance_of_def bnd_Inr_iff by blast
  show ?thesis
    unfolding broadcast_bget [OF h(3)] py_T_bget [OF h(2)] py_mul_pget [OF h(1)]
    by simp
qed

lemma inertia_bget:
  assumes "inertia_of m driving_mass = Inr r"
  shows "bget r t y p s = bget (acceleration m) t y p s * pget driving_mass t y p s"
proof -
  from assms obtain a where h: "py_values driving_mass = Inr a"
    "broadcast (*) (acceleration m) (transpose_T a) = Inr r"
    unfolding inertia_of_def bnd_Inr_iff by blast
  show ?thesis
    unfolding broadcast_bget [OF h(2)] py_values_bget [OF h(1)] ..
qed

lemma braking_loss_bget:
  "bget (braking_loss_of i) t y p s = (if bget i t y p s < 0 then bget i t y p s * - 1 else 0)"
  by (simp add: braking_loss_of_def)

lemma total_resistance_bget:
  assumes "total_resistance_of r a g i = Inr x"
  shows "bget x t y p s = bget r t y p s + bget a t y p s + bget g t y p s + bget i t y p s"
proof -
  from assms obtain u v where h: "broadcast (+) r a = Inr u" "broadcast (+) u g = Inr v"
    "broadcast (+) v i = Inr x"
    unfolding total_resistance_of_def bnd_Inr_iff by blast
  show ?thesis
    unfolding broadcast_bget [OF h(3)] broadcast_bget [OF h(2)] broadcast_bget [OF h(1)] ..
qed

lemma clipped_total_power_bget:
  assumes "clipped_total_power m x = Inr tp"
  shows "bget tp t y p s = max (bget x t y p s * bget (velocity m) t y p s) 0"
proof -
  from assms obtain u where h: "broadcast (*) x (velocity m) = Inr u"
    "tp = map_tensor (\<lambda>x. max x 0) u"
    unfolding clipped_total_power_def bnd_Inr_iff by blast
  show ?thesis
    unfolding h(2) map_tensor_bget broadcast_bget [OF h(1)] ..
qed

lemma recuperated_power_bget:
  assumes "recuperated_power_of m bl recuperation_efficiency motor_power = Inr rp"
  shows "bget rp t y p s =
    min (max (bget bl t y p s * pget recuperation_efficiency t y p s
              * bget (velocity m) t y p s) 0)
        (pget motor_power t y p s * 1000)"
proof -
  from assms obtain r a b mp where h: "py_values recuperation_efficiency = Inr r"
    "broadcast (*) bl (transpose_T r) = Inr a"
    "broadcast (*) a (velocity m) = Inr b"
    "py_values motor_power = Inr mp"
    "broadcast (\<lambda>x upper. min (max x 0) upper) b
       (map_tensor (\<lambda>v. v * 1000) (transpose_T mp)) = Inr rp"
    unfolding recuperated_power_of_def bnd_Inr_iff by blast
  show ?thesis
    unfolding broadcast_bget [OF h(5)] broadcast_bget [OF h(3)] broadcast_bget [OF h(2)]
      map_tensor_bget py_values_bget [OF h(1)] py_values_bget [OF h(4)] ..
qed



lemma distance_bget:
  assumes "init gsd gg cycle_in rho = Inr m" "sum_axis0_0_0 (velocity m) = Inr metres"
  shows "bget metres t y p s = (\<Sum>t\<leftarrow>[0..<n0 (velocity m)]. item (velocity m) t 0 0 s)"
  using assms(2) unfolding sum_axis0_0_0_init [OF assms(1)]
  by (auto simp: bget_def bix_def)

lemma motive_energy_per_km_Energy:
  assumes init: "init gsd gg cycle_in rho = Inr m"
    and run: "motive_energy_per_km m driving_mass rr_coef drag_coef frontal_area ttw_efficiency
       recuperation_efficiency motor_power False = Inr r"
  obtains out rolling air grad inertia x tp rp net where
    "r = Energy out"
    "rolling_resistance_of m driving_mass rr_coef = Inr rolling"
    "air_resistance_of m frontal_area drag_coef = Inr air"
    "gradient_resistance_of m driving_mass = Inr grad"
    "inertia_of m driving_mass = Inr inertia"
    "total_resistance_of rolling air grad inertia = Inr x"
    "clipped_total_power m x = Inr tp"
    "recuperated_power_of m (braking_loss_of inertia) recuperation_efficiency motor_power = Inr rp"
    "net_total_power tp rp = Inr net"
    "n0 out = n0 tp" "n1 out = n1 tp" "n2 out = n2 tp" "n3 out = n3 tp"
    "\<And>t y p s. bget out t y p s =
       fdiv (fdiv (fdiv (Some (bget net t y p s))
          ((\<Sum>t\<leftarrow>[0..<n0 (velocity m)]. item (velocity m) t 0 0 s) / 1000))
          (pget ttw_efficiency t y p s)) 1000"
proof -
  from run obtain metres rolling air grad inertia x tp rp net tp3 ttw tp4 where h:
    "sum_axis0_0_0 (velocity m) = Inr metres"
    "rolling_resistance_of m driving_mass rr_coef = Inr rolling"
    "air_resistance_of m frontal_area drag_coef = Inr air"
    "gradient_resistance_of m driving_mass = Inr grad"
    "inertia_of m driving_mass = Inr inertia"
    "total_resistance_of rolling air grad inertia = Inr x"
    "clipped_total_power m x = Inr tp"
    "recuperated_power_of m (braking_loss_of inertia) recuperation_efficiency motor_power = Inr rp"
    "net_total_power tp rp = Inr net"
    "inplace (\<lambda>x d. fdiv (Some x) d) net (map_tensor (\<lambda>x. x / 1000) metres) = Inr tp3"
    "py_values ttw_efficiency = Inr ttw"
    "inplace fdiv tp3 (transpose_T ttw) = Inr tp4"
    "r = Energy (map_tensor (\<lambda>x. fdiv x 1000) tp4)"
    unfolding motive_energy_per_km_def Let_def bnd_Inr_iff
    by (simp only: simp_thms if_True bnd_Inr_iff) blast
  note n = inplace_Inr(2-5) [OF h(9) [unfolded net_total_power_def]]
  have val: "bget (map_tensor (\<lambda>x. fdiv x 1000) tp4) t y p s =
       fdiv (fdiv (fdiv (Some (bget net t y p s))
          ((\<Sum>t\<leftarrow>[0..<n0 (velocity m)]. item (velocity m) t 0 0 s) / 1000))
          (pget ttw_efficiency t y p s)) 1000" for t y p s
    unfolding map_tensor_bget inplace_bget [OF h(12)] inplace_bget [OF h(10)]
      py_values_bget [OF h(11)] distance_bget [OF init h(1)] ..
  show thesis
    by (rule that [OF h(13) h(2-9) _ _ _ _ val])
      (simp_all add: inplace_Inr(2-5) [OF h(12)] inplace_Inr(2-5) [OF h(10)] n)
qed


lemma motive_energy_per_km_Debug:
  assumes run: "motive_energy_per_km m driving_mass rr_coef drag_coef frontal_area ttw_efficiency
       recuperation_efficiency motor_power True = Inr r"
  obtains d rolling air grad inertia x where
    "r = Debug d"
    "rolling_resistance_of m driving_mass rr_coef = Inr rolling"
    "air_resistance_of m frontal_area drag_coef = Inr air"
    "gradient_resistance_of m driving_mass = Inr grad"
    "inertia_of m driving_mass = Inr inertia"
    "total_resistance_of rolling air grad inertia = Inr x"
    "clipped_total_power m x = Inr (dbg_total_power d)"
    "\<And>t y p s. bget (dbg_rolling_resistance d) t y p s =
        bget rolling t y p s * bget (velocity m) t y p s"
    "\<And>t y p s. bget (dbg_air_resistance d) t y p s =
        bget air t y p s * bget (velocity m) t y p s"
    "\<And>t y p s. bget (dbg_gradient_resistance d) t y p s =
        bget grad t y p s * bget (velocity m) t y p s"
    "\<And>t y p s. bget (dbg_inertia d) t y p s =
        bget inertia t y p s * bget (velocity m) t y p s"
    "\<And>t y p s. bget (dbg_braking_loss d) t y p s =
        bget (braking_loss_of inertia) t y p s * bget (velocity m) t y p s"
    "\<And>t y p s. bget (dbg_energy d) t y p s =
        fdiv (fdiv (Some (bget (dbg_total_power d) t y p s)) (pget ttw_efficiency t y p s)) 1000"
proof -
  from run obtain metres rolling air grad inertia x r1 a1 g1 i1 b1 tp ttw e where h:
    "sum_axis0_0_0 (velocity m) = Inr metres"
    "rolling_resistance_of m driving_mass rr_coef = Inr rolling"
    "air_resistance_of m frontal_area drag_coef = Inr air"
    "gradient_resistance_of m driving_mass = Inr grad"
    "inertia_of m driving_mass = Inr inertia"
    "total_resistance_of rolling air grad inertia = Inr x"
    "inplace (*) rolling (velocity m) = Inr r1"
    "inplace (*) air (velocity m) = Inr a1"
    "inplace (*) grad (velocity m) = Inr g1"
    "inplace (*) inertia (velocity m) = Inr i1"
    "inplace (*) (braking_loss_of inertia) (velocity m) = Inr b1"
    "clipped_total_power m x = Inr tp"
    "py_values ttw_efficiency = Inr ttw"
    "broadcast (\<lambda>x e. fdiv (Some x) e) tp (transpose_T ttw) = Inr e"
    "r = Debug \<lparr>dbg_rolling_resistance = r1, dbg_air_resistance = a1,
                 dbg_gradient_resistance = g1, dbg_inertia = i1, dbg_braking_loss = b1,
                 dbg_total_power = tp, dbg_energy = map_tensor (\<lambda>x. fdiv x 1000) e\<rparr>"
    unfolding motive_energy_per_km_def Let_def bnd_Inr_iff
    by (simp only: simp_thms if_False bnd_Inr_iff) blast
  define d where "d = \<lparr>dbg_rolling_resistance = r1, dbg_air_resistance = a1,
                 dbg_gradient_resistance = g1, dbg_inertia = i1, dbg_braking_loss = b1,
                 dbg_total_power = tp, dbg_energy = map_tensor (\<lambda>x. fdiv x 1000) e\<rparr>"
  have sel: "dbg_rolling_resistance d = r1" "dbg_air_resistance d = a1"
    "dbg_gradient_resistance d = g1" "dbg_inertia d = i1" "dbg_braking_loss d = b1"
    "dbg_total_power d = tp" "dbg_energy d = map_tensor (\<lambda>x. fdiv x 1000) e"
    by (simp_all add: d_def)
  show thesis
  proof (rule that [of d rolling air grad inertia x])
    show "r = Debug d" using h(15) by (simp add: d_def)
    show "clipped_total_power m x = Inr (dbg_total_power d)" using h(12) by (simp add: sel)
    show "bget (dbg_energy d) t y p s =
        fdiv (fdiv (Some (bget (dbg_total_power d) t y p s)) (pget ttw_efficiency t y p s)) 1000"
      for t y p s
      unfolding sel map_tensor_bget broadcast_bget [OF h(14)] py_values_bget [OF h(13)] ..
  qed (simp_all add: h sel inplace_bget [OF h(7)] inplace_bget [OF h(8)] inplace_bget [OF h(9)]
        inplace_bget [OF h(10)] inplace_bget [OF h(11)])
qed

lemma shape_eq_iff [simp]:
  "shape a = (w, x, y, z) \<longleftrightarrow> n0 a = w \<and> n1 a = x \<and> n2 a = y \<and> n3 a = z"
  by (auto simp: shape_def)

lemma bdim_commute: "bdim a b = bdim b a"
  by (auto simp: bdim_def)

lemma bdim_absorb:
  assumes "bdim a b = Some d"
  shows "bdim d a = Some d" "bdim d b = Some d" "bdim a d = Some d" "bdim b d = Some d"
  using assms by (auto simp: bdim_def split: if_splits)

lemma bdim_6 [simp]: "s = 6 \<or> s = 1 \<Longrightarrow> bdim s 6 = Some 6" "s = 6 \<or> s = 1 \<Longrightarrow> bdim 6 s = Some 6"
  by (auto simp: bdim_def)

lemma broadcast_shape:
  assumes "shape a = (a0, a1, a2, a3)" "shape b = (b0, b1, b2, b3)"
    "bdim a0 b0 = Some d0" "bdim a1 b1 = Some d1" "bdim a2 b2 = Some d2" "bdim a3 b3 = Some d3"
  shows "\<exists>c. broadcast f a b = Inr c \<and> shape c = (d0, d1, d2, d3)"
  using assms by (simp add: broadcast_def)

lemma inplace_shape:
  assumes "shape a = (a0, a1, a2, a3)" "shape b = (b0, b1, b2, b3)"
    "bdim a0 b0 = Some a0" "bdim a1 b1 = Some a1" "bdim a2 b2 = Some a2" "bdim a3 b3 = Some a3"
  shows "\<exists>c. inplace f a b = Inr c \<and> shape c = (a0, a1, a2, a3)"
  using assms by (simp add: inplace_def broadcast_def)

lemma rolling_resistance_ok:
  assumes "shape M = (S, P, Y, V)" "shape RR = (S, P, Y, V)"
    "shape (velocity m) = (T, 1, 1, 6)" "bdim V T = Some d0" "S = 6 \<or> S = 1"
  shows "\<exists>r. rolling_resistance_of m (DataArray M) (DataArray RR) = Inr r \<and>
             shape r = (d0, Y, P, 6)"
  using assms
  by (simp add: rolling_resistance_of_def py_mul_def py_T_def broadcast_def ones_like_def)

lemma air_resistance_ok:
  assumes "shape AREA = (S, P, Y, V)" "shape DRAG = (S, P, Y, V)"
    "shape (velocity m) = (T, 1, 1, 6)" "bdim V T = Some d0" "S = 6 \<or> S = 1"
  shows "\<exists>r. air_resistance_of m (DataArray AREA) (DataArray DRAG) = Inr r \<and>
             shape r = (d0, Y, P, 6)"
  using assms
  by (simp add: air_resistance_of_def py_mul_def py_T_def py_half_def broadcast_def)

lemma gradient_resistance_ok:
  assumes "shape M = (S, P, Y, V)"
    "shape (gradient m) = (T, 1, 1, 6)" "bdim V T = Some d0" "S = 6 \<or> S = 1"
  shows "\<exists>r. gradient_resistance_of m (DataArray M) = Inr r \<and> shape r = (d0, Y, P, 6)"
  using assms
  by (simp add: gradient_resistance_of_def py_mul_def py_T_def broadcast_def)

lemma inertia_ok:
  assumes "shape M = (S, P, Y, V)"
    "shape (acceleration m) = (T, 1, 1, 6)" "bdim V T = Some d0" "S = 6 \<or> S = 1"
  shows "\<exists>r. inertia_of m (DataArray M) = Inr r \<and> shape r = (d0, Y, P, 6)"
  using assms bdim_commute [of T V]
  by (simp add: inertia_of_def py_values_def broadcast_def)

lemma total_resistance_ok:
  assumes "shape r = sh" "shape a = sh" "shape g = sh" "shape i = sh"
  shows "\<exists>x. total_resistance_of r a g i = Inr x \<and> shape x = sh"
  using assms
  by (cases sh) (simp add: total_resistance_of_def broadcast_def)

lemma clipped_total_power_ok:
  assumes "shape x = (d0, Y, P, 6)" "shape (velocity m) = (T, 1, 1, 6)" "bdim V T = Some d0"
  shows "\<exists>tp. clipped_total_power m x = Inr tp \<and> shape tp = (d0, Y, P, 6)"
  using assms bdim_absorb(2) [OF assms(3)]
  by (simp add: clipped_total_power_def broadcast_def)

lemma recuperated_power_ok:
  assumes "shape bl = (d0, Y, P, 6)" "shape REC = (S, P, Y, V)" "shape MP = (S, P, Y, V)"
    "shape (velocity m) = (T, 1, 1, 6)" "bdim V T = Some d0" "S = 6 \<or> S = 1"
  shows "\<exists>rp. recuperated_power_of m bl (DataArray REC) (DataArray MP) = Inr rp \<and>
              shape rp = (d0, Y, P, 6)"
  using assms bdim_absorb(1,2) [OF assms(5)]
  by (simp add: recuperated_power_of_def py_values_def broadcast_def)

lemma example_velocity:
  assumes "init no_registry flat_gradients (NdArray example_cycle) rho = Inr m"
  shows "n0 (velocity m) = 5"
    "item (velocity m) t j k s = example_cycle ! (t * 6 + s) * 1000 / 3600"
proof -
  from assms obtain name c and g :: "real list" where r:
    "resolved no_registry (NdArray example_cycle) = Some (name, c)"
    "n0 (cycle m) = length c div 6"
    "\<And>i j k l. item (cycle m) i j k l = c ! (i * 6 + l)"
    by (rule init_samples) auto
  from r(1) have ce: "c = example_cycle" by (simp add: resolved_def)
  show "n0 (velocity m) = 5"
    using init_dims(2) [OF assms] r(2) by (simp add: ce example_cycle_def)
  show "item (velocity m) t j k s = example_cycle ! (t * 6 + s) * 1000 / 3600"
    by (simp add: init_velocity_item [OF assms] r(3) ce)
qed

lemma upt_0_5: "[0..<5] = [0, 1, 2, 3, 4]"
  by code_simp

lemma example_distance:
  assumes "init no_registry flat_gradients (NdArray example_cycle) rho = Inr m"
  shows "(\<Sum>t\<leftarrow>[0..<5]. item (velocity m) t 0 0 0) = 100 / 9"
  unfolding example_velocity [OF assms] upt_0_5
  by (simp add: example_cycle_def)

text \<open>The result of the auxiliary energy, written out.\<close>

lemma aux_energy_per_km_value:
  assumes "init gsd gg cycle_in rho = Inr m"
    and "n0 A = 6 \<or> n0 A = 1"
  shows "\<exists>out. aux_energy_per_km m (DataArray A) e = Inr out \<and>
     n0 out = 6 \<and> n1 out = n1 A \<and> n2 out = n2 A \<and> n3 out = n3 A \<and>
     (\<forall>s p y v.
        bget out s p y v =
          fdiv (fdiv (map_option (\<lambda>x. x * 1000)
            (fdiv (Some (bget A s p y v * real (n0 (velocity m))))
               (\<Sum>t\<leftarrow>[0..<n0 (velocity m)]. item (velocity m) t 0 0 s))) 1000) e) \<and>
     (\<forall>s p y v. 0 < e \<and> e \<le> 1 \<and>
          (\<Sum>t\<leftarrow>[0..<n0 (velocity m)]. item (velocity m) t 0 0 s) \<noteq> 0 \<longrightarrow>
        bget out s p y v =
          Some (bget A s p y v * real (n0 (velocity m))
                / (\<Sum>t\<leftarrow>[0..<n0 (velocity m)]. item (velocity m) t 0 0 s)
                * 1000 / 1000 / e)) \<and>
     (\<forall>s p y v. e = 1 \<and> bget A s p y v = 1000 \<and>
          (\<Sum>t\<leftarrow>[0..<n0 (velocity m)]. item (velocity m) t 0 0 s) \<noteq> 0 \<longrightarrow>
        bget out s p y v =
          Some (1000 * real (n0 (velocity m))
                / (\<Sum>t\<leftarrow>[0..<n0 (velocity m)]. item (velocity m) t 0 0 s)))"
proof -
  define D where "D = (\<lambda>s. \<Sum>t\<leftarrow>[0..<n0 (velocity m)]. item (velocity m) t 0 0 s)"
  define dist where "dist = \<lparr>n0 = 1, n1 = 1, n2 = 1, n3 = 6, item = (\<lambda>i j k l. D l)\<rparr>"
  define ws where "ws = map_tensor (\<lambda>x. x * real (n0 (velocity m))) (transpose_T A)"
  define pm where "pm = \<lparr>n0 = n3 A, n1 = n2 A, n2 = n1 A, n3 = (6::nat),
     item = (\<lambda>i j k l. fdiv (Some (bget ws i j k l)) (bget dist i j k l))\<rparr>"
  define out where "out = transpose_T (map_tensor (\<lambda>x. fdiv x e)
     (map_tensor (\<lambda>x. fdiv (map_option (\<lambda>v. v * 1000) x) 1000) pm))"
  have s: "sum_axis0_0_0 (velocity m) = Inr dist"
    unfolding dist_def D_def by (rule sum_axis0_0_0_init [OF assms(1)])
  have d3: "bdim (n3 ws) (n3 dist) = Some 6"
    using assms(2) by (auto simp: ws_def dist_def bdim_def)
  have b: "broadcast (\<lambda>x d. fdiv (Some x) d) ws dist = Inr pm"
    unfolding pm_def
    by (rule trans [OF broadcastI [OF _ _ _ d3]]) (simp_all add: ws_def dist_def)
  have run: "aux_energy_per_km m (DataArray A) e = Inr out"
    unfolding aux_energy_per_km_def s bnd_Inr py_T_def pyval.case
    unfolding ws_def [symmetric] b bnd_Inr Let_def out_def ..
  have pmget: "bget pm v y p s = fdiv (Some (bget A s p y v * real (n0 (velocity m)))) (D s)"
    for s p y v
  proof -
    have "bget dist v y p s = D s"
      by (simp add: dist_def bget_def bix_def)
    then show ?thesis
      unfolding broadcast_bget [OF b] by (simp add: ws_def)
  qed
  have val: "bget out s p y v =
      fdiv (fdiv (map_option (\<lambda>x. x * 1000)
            (fdiv (Some (bget A s p y v * real (n0 (velocity m)))) (D s))) 1000) e" for s p y v
    by (simp add: out_def pmget)
  have dims: "n0 out = 6 \<and> n1 out = n1 A \<and> n2 out = n2 A \<and> n3 out = n3 A"
    by (simp add: out_def pm_def)
  have fin: "bget out s p y v =
      Some (bget A s p y v * real (n0 (velocity m)) / D s * 1000 / 1000 / e)"
    if "0 < e" "D s \<noteq> 0" for s p y v
    using that by (simp add: val fdiv_def)
  have const: "bget out s p y v = Some (1000 * real (n0 (velocity m)) / D s)"
    if "e = 1" "bget A s p y v = 1000" "D s \<noteq> 0" for s p y v
    using that by (simp add: val fdiv_def)
  from run dims val fin const show ?thesis
    unfolding D_def by blast
qed


subsection \<open>Claims about the auxiliary energy\<close>

text \<open>
  Claim C4. On a constructed model and for an \<^verbatim>\<open>aux_power\<close> array whose size axis
  broadcasts against the six sizes, \<^verbatim>\<open>aux_energy_per_km\<close> returns an array over
  (size, powertrain, year, value) whose element is
  \<open>aux_power * N / D * 1000 / 1000 / efficiency\<close> with \<open>N\<close> the length of the time
  axis and \<open>D\<close> the sum over time of the velocity of that size; a division by zero gives
  a non-finite value. For an efficiency in (0, 1] and \<open>D \<noteq> 0\<close> the value is finite, and
  with efficiency 1 and a constant 1000 W it is \<open>1000 * N / D\<close>.
\<close>

theorem aux_energy_per_km_formula:
  assumes "init gsd gg cycle_in rho = Inr m"
    and "n0 A = 6 \<or> n0 A = 1"
  shows "\<exists>out. aux_energy_per_km m (DataArray A) e = Inr out \<and>
     n0 out = 6 \<and> n1 out = n1 A \<and> n2 out = n2 A \<and> n3 out = n3 A \<and>
     (\<forall>s p y v.
        bget out s p y v =
          fdiv (fdiv (map_option (\<lambda>x. x * 1000)
            (fdiv (Some (bget A s p y v * real (n0 (velocity m))))
               (\<Sum>t\<leftarrow>[0..<n0 (velocity m)]. item (velocity m) t 0 0 s))) 1000) e) \<and>
     (\<forall>s p y v. 0 < e \<and> e \<le> 1 \<and>
          (\<Sum>t\<leftarrow>[0..<n0 (velocity m)]. item (velocity m) t 0 0 s) \<noteq> 0 \<longrightarrow>
        bget out s p y v =
          Some (bget A s p y v * real (n0 (velocity m))
                / (\<Sum>t\<leftarrow>[0..<n0 (velocity m)]. item (velocity m) t 0 0 s)
                * 1000 / 1000 / e)) \<and>
     (\<forall>s p y v. e = 1 \<and> bget A s p y v = 1000 \<and>
          (\<Sum>t\<leftarrow>[0..<n0 (velocity m)]. item (velocity m) t 0 0 s) \<noteq> 0 \<longrightarrow>
        bget out s p y v =
          Some (1000 * real (n0 (velocity m))
                / (\<Sum>t\<leftarrow>[0..<n0 (velocity m)]. item (velocity m) t 0 0 s)))"
  using assms by (rule aux_energy_per_km_value)

theorem aux_energy_per_km_formula_witness:
  "\<exists>m out. init no_registry flat_gradients (NdArray example_cycle) (1204 / 1000) = Inr m \<and>
     aux_energy_per_km m (DataArray example_aux_power) 1 = Inr out \<and>
     shape out = (6, 1, 1, 1) \<and> item out 0 0 0 0 = Some 450"
proof -
  obtain m where m: "init no_registry flat_gradients (NdArray example_cycle) (1204 / 1000) = Inr m"
    using example_init_ok by blast
  have a: "n0 example_aux_power = 6 \<or> n0 example_aux_power = 1"
    by (simp add: example_aux_power_def)
  from aux_energy_per_km_formula [OF m a, of 1] obtain out where o:
    "aux_energy_per_km m (DataArray example_aux_power) 1 = Inr out"
    "n0 out = 6" "n1 out = n1 example_aux_power" "n2 out = n2 example_aux_power"
    "n3 out = n3 example_aux_power"
    "\<forall>s p y v. (1::real) = 1 \<and> bget example_aux_power s p y v = 1000 \<and>
          (\<Sum>t\<leftarrow>[0..<n0 (velocity m)]. item (velocity m) t 0 0 s) \<noteq> 0 \<longrightarrow>
        bget out s p y v =
          Some (1000 * real (n0 (velocity m))
                / (\<Sum>t\<leftarrow>[0..<n0 (velocity m)]. item (velocity m) t 0 0 s))"
    by blast
  have sh: "shape out = (6, 1, 1, 1)"
    using o(2-5) by (simp add: example_aux_power_def)
  have "bget out 0 0 0 0 = Some 450"
    using o(6) [rule_format, of 0 0 0 0]
    by (simp add: example_distance [OF m] example_velocity(1) [OF m] example_aux_power_def
        bget_def bix_def)
  then have "item out 0 0 0 0 = Some 450"
    using sh by (simp add: bget_def bix_def)
  with m o(1) sh show ?thesis by blast
qed

subsection \<open>Facts about the motive energy\<close>

lemma init_shapes:
  assumes "init gsd gg cycle_in rho = Inr m"
  shows "shape (velocity m) = (n0 (velocity m), 1, 1, 6)"
    "shape (acceleration m) = (n0 (velocity m), 1, 1, 6)"
    "shape (gradient m) = (n0 (gradient m), 1, 1, 6)"
  using init_dims [OF assms] by simp_all

text \<open>Success of the normal mode on parameter arrays of one common shape.\<close>

lemma motive_energy_per_km_ok:
  assumes init: "init gsd gg cycle_in rho = Inr m"
    and grad: "n0 (gradient m) = n0 (velocity m)"
    and shapes: "shape M = (S, P, Y, V)" "shape RR = (S, P, Y, V)" "shape DRAG = (S, P, Y, V)"
      "shape AREA = (S, P, Y, V)" "shape TTW = (S, P, Y, V)" "shape REC = (S, P, Y, V)"
      "shape MP = (S, P, Y, V)"
    and size: "S = 6 \<or> S = 1"
    and time: "bdim V (n0 (velocity m)) = Some d0"
  shows "\<exists>out. motive_energy_per_km m (DataArray M) (DataArray RR) (DataArray DRAG)
            (DataArray AREA) (DataArray TTW) (DataArray REC) (DataArray MP) False
          = Inr (Energy out) \<and> shape out = (d0, Y, P, 6)"
proof -
  note sh = init_shapes [OF init]
  have gsh: "shape (gradient m) = (n0 (velocity m), 1, 1, 6)"
    using sh(3) grad by simp
  obtain rolling where r: "rolling_resistance_of m (DataArray M) (DataArray RR) = Inr rolling"
    "shape rolling = (d0, Y, P, 6)"
    using rolling_resistance_ok [OF shapes(1,2) sh(1) time size] by blast
  obtain air where a: "air_resistance_of m (DataArray AREA) (DataArray DRAG) = Inr air"
    "shape air = (d0, Y, P, 6)"
    using air_resistance_ok [OF shapes(4,3) sh(1) time size] by blast
  obtain gr where g: "gradient_resistance_of m (DataArray M) = Inr gr"
    "shape gr = (d0, Y, P, 6)"
    using gradient_resistance_ok [OF shapes(1) gsh time size] by blast
  obtain inertia where i: "inertia_of m (DataArray M) = Inr inertia"
    "shape inertia = (d0, Y, P, 6)"
    using inertia_ok [OF shapes(1) sh(2) time size] by blast
  obtain x where x: "total_resistance_of rolling air gr inertia = Inr x"
    "shape x = (d0, Y, P, 6)"
    using total_resistance_ok [OF r(2) a(2) g(2) i(2)] by blast
  obtain tp where tp: "clipped_total_power m x = Inr tp" "shape tp = (d0, Y, P, 6)"
    using clipped_total_power_ok [OF x(2) sh(1) time] by blast
  have bl: "shape (braking_loss_of inertia) = (d0, Y, P, 6)"
    using i(2) by (simp add: braking_loss_of_def)
  obtain rp where rp:
    "recuperated_power_of m (braking_loss_of inertia) (DataArray REC) (DataArray MP) = Inr rp"
    "shape rp = (d0, Y, P, 6)"
    using recuperated_power_ok [OF bl shapes(6,7) sh(1) time size] by blast
  obtain net where net: "net_total_power tp rp = Inr net" "shape net = (d0, Y, P, 6)"
    using inplace_shape [OF tp(2) rp(2), of "(-)"] by (auto simp: net_total_power_def)
  define distance where "distance = map_tensor (\<lambda>x. x / 1000)
     \<lparr>n0 = 1, n1 = 1, n2 = 1, n3 = 6,
      item = (\<lambda>i j k l. \<Sum>t\<leftarrow>[0..<n0 (velocity m)]. item (velocity m) t 0 0 l)\<rparr>"
  have dsh: "shape distance = (1, 1, 1, 6)"
    by (simp add: distance_def)
  obtain tp3 where tp3: "inplace (\<lambda>x d. fdiv (Some x) d) net distance = Inr tp3"
    "shape tp3 = (d0, Y, P, 6)"
    using inplace_shape [OF net(2) dsh, of "\<lambda>x d. fdiv (Some x) d"] by auto
  have tsh: "shape (transpose_T TTW) = (V, Y, P, S)"
    using shapes(5) by simp
  obtain tp4 where tp4: "inplace fdiv tp3 (transpose_T TTW) = Inr tp4"
    "shape tp4 = (d0, Y, P, 6)"
    using inplace_shape [OF tp3(2) tsh, of fdiv] bdim_absorb(1) [OF time] size by auto
  have "motive_energy_per_km m (DataArray M) (DataArray RR) (DataArray DRAG)
            (DataArray AREA) (DataArray TTW) (DataArray REC) (DataArray MP) False
          = Inr (Energy (map_tensor (\<lambda>x. fdiv x 1000) tp4))"
    unfolding motive_energy_per_km_def sum_axis0_0_0_init [OF init] bnd_Inr Let_def
      distance_def [symmetric] r(1) a(1) g(1) i(1) x(1) tp(1) rp(1) net(1) tp3(1)
    by (simp add: py_values_def tp4(1))
  moreover have "shape (map_tensor (\<lambda>x. fdiv x 1000) tp4) = (d0, Y, P, 6)"
    using tp4(2) by simp
  ultimately show ?thesis by blast
qed

lemma bdim_time:
  assumes "bdim a b = Some d"
  shows "d = b \<or> b = 1"
  using assms by (auto simp: bdim_def split: if_splits)

lemma bdim_size_6:
  assumes "bdim a 6 = Some d"
  shows "d = 6"
  using assms by (auto simp: bdim_def split: if_splits)

lemma clipped_total_power_dims:
  assumes "clipped_total_power m x = Inr tp"
  shows "bdim (n0 x) (n0 (velocity m)) = Some (n0 tp)" "bdim (n3 x) (n3 (velocity m)) = Some (n3 tp)"
proof -
  from assms obtain u where h: "broadcast (*) x (velocity m) = Inr u"
    "tp = map_tensor (\<lambda>x. max x 0) u"
    unfolding clipped_total_power_def bnd_Inr_iff by blast
  show "bdim (n0 x) (n0 (velocity m)) = Some (n0 tp)"
    "bdim (n3 x) (n3 (velocity m)) = Some (n3 tp)"
    using broadcast_dims [OF h(1)] by (simp_all add: h(2))
qed

text \<open>The element of the result of the normal mode, written out.\<close>

lemma motive_energy_value:
  assumes init: "init gsd gg cycle_in rho = Inr m"
    and run: "motive_energy_per_km m dm rr dc fa ttw rec mp False = Inr r"
  obtains out where "r = Energy out"
    "n0 out = n0 (velocity m) \<or> n0 (velocity m) = 1" "n3 out = 6"
    "\<And>t y p s. bget out t y p s =
       fdiv (fdiv (fdiv (Some (
           max ((pget dm t y p s * pget rr t y p s * 9.81 * 1
                 + pget fa t y p s * pget dc t y p s * rho_air m / 2
                     * (bget (velocity m) t y p s) ^ 2
                 + pget dm t y p s * 9.81 * sin (bget (gradient m) t y p s)
                 + bget (acceleration m) t y p s * pget dm t y p s)
                * bget (velocity m) t y p s) 0
         - min (max ((if bget (acceleration m) t y p s * pget dm t y p s < 0
                      then bget (acceleration m) t y p s * pget dm t y p s * - 1 else 0)
                     * pget rec t y p s * bget (velocity m) t y p s) 0)
               (pget mp t y p s * 1000)))
          ((\<Sum>t\<leftarrow>[0..<n0 (velocity m)]. item (velocity m) t 0 0 s) / 1000))
          (pget ttw t y p s)) 1000"
proof -
  obtain out rolling air grad inertia x tp rp net where h:
    "r = Energy out"
    "rolling_resistance_of m dm rr = Inr rolling"
    "air_resistance_of m fa dc = Inr air"
    "gradient_resistance_of m dm = Inr grad"
    "inertia_of m dm = Inr inertia"
    "total_resistance_of rolling air grad inertia = Inr x"
    "clipped_total_power m x = Inr tp"
    "recuperated_power_of m (braking_loss_of inertia) rec mp = Inr rp"
    "net_total_power tp rp = Inr net"
    "n0 out = n0 tp" "n1 out = n1 tp" "n2 out = n2 tp" "n3 out = n3 tp"
    "\<And>t y p s. bget out t y p s =
       fdiv (fdiv (fdiv (Some (bget net t y p s))
          ((\<Sum>t\<leftarrow>[0..<n0 (velocity m)]. item (velocity m) t 0 0 s) / 1000))
          (pget ttw t y p s)) 1000"
    by (rule motive_energy_per_km_Energy [OF init run]) (rule that)
  note d = clipped_total_power_dims [OF h(7)]
  have t: "n0 out = n0 (velocity m) \<or> n0 (velocity m) = 1"
    using bdim_time [OF d(1)] h(10) by simp
  have s: "n3 out = 6"
    using bdim_size_6 [of "n3 x" "n3 tp"] d(2) init_dims(2) [OF init] h(13) by simp
  have net: "bget net t y p s = bget tp t y p s - bget rp t y p s" for t y p s
    using h(9) unfolding net_total_power_def by (rule inplace_bget)
  show thesis
    by (rule that [OF h(1) t s])
      (simp only: h(14) net clipped_total_power_bget [OF h(7)] recuperated_power_bget [OF h(8)]
        total_resistance_bget [OF h(6)] rolling_resistance_bget [OF h(2)]
        air_resistance_bget [OF h(3)] gradient_resistance_bget [OF h(4)]
        inertia_bget [OF h(5)] braking_loss_bget)
qed

lemma const_param_simps [simp]:
  "shape (const_param c) = (6, 1, 1, 1)" "pget (DataArray (const_param c)) t y p s = c"
  by (simp_all add: const_param_def bget_def)

lemma example_series:
  assumes m: "init no_registry flat_gradients (NdArray example_cycle) rho = Inr m"
  shows "bget (velocity m) 1 0 0 0 = 25 / 9" "bget (velocity m) 2 0 0 0 = 50 / 9"
    "bget (velocity m) 3 0 0 0 = 25 / 9"
    "bget (acceleration m) 1 0 0 0 = 25 / 9" "bget (acceleration m) 2 0 0 0 = 0"
    "bget (acceleration m) 3 0 0 0 = - (25 / 9)"
    "t < 5 \<Longrightarrow> bget (gradient m) t 0 0 0 = 0"
    "rho_air m = rho" "n0 (gradient m) = n0 (velocity m)"
proof -
  note d = init_dims [OF m]
  note v = example_velocity [OF m]
  have n: "n0 (acceleration m) = 5" "n0 (cycle m) = 5"
    using d v(1) by simp_all
  have vb: "bget (velocity m) t 0 0 0 = item (velocity m) t 0 0 0" for t
    using d v(1) by (simp add: bget_def bix_def)
  show "bget (velocity m) 1 0 0 0 = 25 / 9" "bget (velocity m) 2 0 0 0 = 50 / 9"
    "bget (velocity m) 3 0 0 0 = 25 / 9"
    unfolding vb v(2) by (simp_all add: example_cycle_def)
  have ab: "bget (acceleration m) t 0 0 0 = item (acceleration m) t 0 0 0" for t
    using d n by (simp add: bget_def bix_def)
  have inner: "item (acceleration m) i 0 0 0 =
          (item (velocity m) (i + 1) 0 0 0 - item (velocity m) (i - 1) 0 0 0) / 2"
    if "1 \<le> i" "i + 1 < 5" for i
    using init_acceleration [OF m] that n by simp
  show "bget (acceleration m) 1 0 0 0 = 25 / 9" "bget (acceleration m) 2 0 0 0 = 0"
    "bget (acceleration m) 3 0 0 0 = - (25 / 9)"
    unfolding ab by (simp_all add: inner v(2) example_cycle_def)
  from m obtain name :: string and c g :: "real list" where r:
    "flat_gradients name = Inr g" "n0 (gradient m) = length g div 6"
    "\<And>i j k l. item (gradient m) i j k l = g ! (i * 6 + l)"
    by (rule init_samples) auto
  have g: "g = [0,0,0,0,0,0, 0,0,0,0,0,0, 0,0,0,0,0,0, 0,0,0,0,0,0, 0,0,0,0,0,0]"
    using r(1) by (simp add: flat_gradients_def)
  have g5: "n0 (gradient m) = 5" using r(2) by (simp add: g)
  then show "n0 (gradient m) = n0 (velocity m)" using v(1) by simp
  have "item (gradient m) t 0 0 0 = 0" if "t < 5" for t
  proof -
    from that have "t = 0 \<or> t = 1 \<or> t = 2 \<or> t = 3 \<or> t = 4" by arith
    then show ?thesis unfolding r(3) g by (elim disjE) simp_all
  qed
  moreover have "bget (gradient m) t 0 0 0 = item (gradient m) t 0 0 0"
    using d g5 by (simp add: bget_def bix_def)
  ultimately show "t < 5 \<Longrightarrow> bget (gradient m) t 0 0 0 = 0"
    by simp
  from m obtain name :: string and c g :: "real list" and diff :: "real tensor4" where
    "rho_air m = rho" by (rule init_Inr)
  then show "rho_air m = rho" .
qed

lemma example_motive_ok:
  assumes m: "init no_registry flat_gradients (NdArray example_cycle) rho = Inr m"
  shows "\<exists>out. motive_energy_per_km m (DataArray (const_param 10000))
     (DataArray (const_param 0.006)) (DataArray (const_param 0.6)) (DataArray (const_param 8))
     (DataArray (const_param 0.4)) (DataArray (const_param re)) (DataArray (const_param mp))
     False = Inr (Energy out) \<and> shape out = (5, 1, 1, 6)"
proof -
  have t: "bdim 1 (n0 (velocity m)) = Some 5"
    by (simp add: example_velocity(1) [OF m])
  show ?thesis
    by (rule motive_energy_per_km_ok
        [where S = 6 and P = 1 and Y = 1 and V = 1, OF m example_series(9) [OF m] _ _ _ _ _ _ _ _ t])
      simp_all
qed

lemma example_motive_values:
  assumes m: "init no_registry flat_gradients (NdArray example_cycle) (1204 / 1000) = Inr m"
    and run: "motive_energy_per_km m (DataArray (const_param 10000))
     (DataArray (const_param 0.006)) (DataArray (const_param 0.6)) (DataArray (const_param 8))
     (DataArray (const_param 0.4)) (DataArray (const_param re)) (DataArray (const_param mp))
     False = Inr (Energy out)"
  shows "bget out 1 0 0 0 = Some ((19162355 / 243 - min 0 (mp * 1000)) * 9 / 40)"
    "bget out 2 0 0 0 = Some ((915010 / 243 - min 0 (mp * 1000)) * 9 / 40)"
    "bget out 3 0 0 0 = Some ((0 - min (max (6250000 / 81 * re) 0) (mp * 1000)) * 9 / 40)"
proof -
  obtain out' where o: "Energy out = Energy out'"
    "\<And>t y p s. bget out' t y p s =
       fdiv (fdiv (fdiv (Some (
           max ((pget (DataArray (const_param 10000)) t y p s
                   * pget (DataArray (const_param 0.006)) t y p s * 9.81 * 1
                 + pget (DataArray (const_param 8)) t y p s
                     * pget (DataArray (const_param 0.6)) t y p s * rho_air m / 2
                     * (bget (velocity m) t y p s) ^ 2
                 + pget (DataArray (const_param 10000)) t y p s * 9.81
                     * sin (bget (gradient m) t y p s)
                 + bget (acceleration m) t y p s * pget (DataArray (const_param 10000)) t y p s)
                * bget (velocity m) t y p s) 0
         - min (max ((if bget (acceleration m) t y p s
                           * pget (DataArray (const_param 10000)) t y p s < 0
                      then bget (acceleration m) t y p s
                           * pget (DataArray (const_param 10000)) t y p s * - 1 else 0)
                     * pget (DataArray (const_param re)) t y p s * bget (velocity m) t y p s) 0)
               (pget (DataArray (const_param mp)) t y p s * 1000)))
          ((\<Sum>t\<leftarrow>[0..<n0 (velocity m)]. item (velocity m) t 0 0 s) / 1000))
          (pget (DataArray (const_param 0.4)) t y p s)) 1000"
    by (rule motive_energy_value [OF m run]) (rule that)
  from o(1) have e: "out' = out" by simp
  note s = example_series [OF m]
  have d: "(\<Sum>t\<leftarrow>[0..<n0 (velocity m)]. item (velocity m) t 0 0 0) = 100 / 9"
    unfolding example_velocity(1) [OF m] by (rule example_distance [OF m])
  have g: "sin (bget (gradient m) 1 0 0 0) = 0" "sin (bget (gradient m) 2 0 0 0) = 0"
    "sin (bget (gradient m) 3 0 0 0) = 0"
    by (simp_all add: s(7))
  show "bget out 1 0 0 0 = Some ((19162355 / 243 - min 0 (mp * 1000)) * 9 / 40)"
    unfolding e [symmetric] o(2) const_param_simps d g s(1-6,8)
    by (simp add: fdiv_def power2_eq_square)
  show "bget out 2 0 0 0 = Some ((915010 / 243 - min 0 (mp * 1000)) * 9 / 40)"
    unfolding e [symmetric] o(2) const_param_simps d g s(1-6,8)
    by (simp add: fdiv_def power2_eq_square)
  show "bget out 3 0 0 0 = Some ((0 - min (max (6250000 / 81 * re) 0) (mp * 1000)) * 9 / 40)"
    unfolding e [symmetric] o(2) const_param_simps d g s(1-6,8)
    by (simp add: fdiv_def power2_eq_square)
qed

text \<open>Lines 172--182 and 187--188 succeed on parameter arrays of one common shape.\<close>

lemma motive_forces_ok:
  assumes init: "init gsd gg cycle_in rho = Inr m"
    and grad: "n0 (gradient m) = n0 (velocity m)"
    and shapes: "shape M = (S, P, Y, V)" "shape RR = (S, P, Y, V)" "shape DRAG = (S, P, Y, V)"
      "shape AREA = (S, P, Y, V)"
    and size: "S = 6 \<or> S = 1"
    and time: "bdim V (n0 (velocity m)) = Some d0"
  obtains rolling air gr inertia x tp where
    "rolling_resistance_of m (DataArray M) (DataArray RR) = Inr rolling"
    "air_resistance_of m (DataArray AREA) (DataArray DRAG) = Inr air"
    "gradient_resistance_of m (DataArray M) = Inr gr"
    "inertia_of m (DataArray M) = Inr inertia"
    "total_resistance_of rolling air gr inertia = Inr x"
    "clipped_total_power m x = Inr tp"
    "shape rolling = (d0, Y, P, 6)" "shape air = (d0, Y, P, 6)" "shape gr = (d0, Y, P, 6)"
    "shape inertia = (d0, Y, P, 6)" "shape tp = (d0, Y, P, 6)"
proof -
  note sh = init_shapes [OF init]
  have gsh: "shape (gradient m) = (n0 (velocity m), 1, 1, 6)"
    using sh(3) grad by simp
  obtain rolling where r: "rolling_resistance_of m (DataArray M) (DataArray RR) = Inr rolling"
    "shape rolling = (d0, Y, P, 6)"
    using rolling_resistance_ok [OF shapes(1,2) sh(1) time size] by blast
  obtain air where a: "air_resistance_of m (DataArray AREA) (DataArray DRAG) = Inr air"
    "shape air = (d0, Y, P, 6)"
    using air_resistance_ok [OF shapes(4,3) sh(1) time size] by blast
  obtain gr where g: "gradient_resistance_of m (DataArray M) = Inr gr"
    "shape gr = (d0, Y, P, 6)"
    using gradient_resistance_ok [OF shapes(1) gsh time size] by blast
  obtain inertia where i: "inertia_of m (DataArray M) = Inr inertia"
    "shape inertia = (d0, Y, P, 6)"
    using inertia_ok [OF shapes(1) sh(2) time size] by blast
  obtain x where x: "total_resistance_of rolling air gr inertia = Inr x"
    "shape x = (d0, Y, P, 6)"
    using total_resistance_ok [OF r(2) a(2) g(2) i(2)] by blast
  obtain tp where tp: "clipped_total_power m x = Inr tp" "shape tp = (d0, Y, P, 6)"
    using clipped_total_power_ok [OF x(2) sh(1) time] by blast
  show thesis
    by (rule that [OF r(1) a(1) g(1) i(1) x(1) tp(1) r(2) a(2) g(2) i(2) tp(2)])
qed

text \<open>Success of the debug mode on parameter arrays of one common shape.\<close>

lemma motive_energy_per_km_debug_ok:
  assumes init: "init gsd gg cycle_in rho = Inr m"
    and grad: "n0 (gradient m) = n0 (velocity m)"
    and shapes: "shape M = (S, P, Y, V)" "shape RR = (S, P, Y, V)" "shape DRAG = (S, P, Y, V)"
      "shape AREA = (S, P, Y, V)" "shape TTW = (S, P, Y, V)"
    and size: "S = 6 \<or> S = 1"
    and time: "bdim V (n0 (velocity m)) = Some d0"
  shows "\<exists>d. motive_energy_per_km m (DataArray M) (DataArray RR) (DataArray DRAG)
            (DataArray AREA) (DataArray TTW) rec mp True = Inr (Debug d) \<and>
          shape (dbg_energy d) = (d0, Y, P, 6) \<and> shape (dbg_total_power d) = (d0, Y, P, 6)"
proof -
  note sh = init_shapes [OF init]
  obtain rolling air gr inertia x tp where f:
    "rolling_resistance_of m (DataArray M) (DataArray RR) = Inr rolling"
    "air_resistance_of m (DataArray AREA) (DataArray DRAG) = Inr air"
    "gradient_resistance_of m (DataArray M) = Inr gr"
    "inertia_of m (DataArray M) = Inr inertia"
    "total_resistance_of rolling air gr inertia = Inr x"
    "clipped_total_power m x = Inr tp"
    "shape rolling = (d0, Y, P, 6)" "shape air = (d0, Y, P, 6)" "shape gr = (d0, Y, P, 6)"
    "shape inertia = (d0, Y, P, 6)" "shape tp = (d0, Y, P, 6)"
    by (rule motive_forces_ok [OF init grad shapes(1-4) size time]) (rule that)
  note t = bdim_absorb(2) [OF time]
  have bl: "shape (braking_loss_of inertia) = (d0, Y, P, 6)"
    using f(10) by (simp add: braking_loss_of_def)
  obtain r1 where r1: "inplace (*) rolling (velocity m) = Inr r1"
    using inplace_shape [OF f(7) sh(1), of "(*)"] t by auto
  obtain a1 where a1: "inplace (*) air (velocity m) = Inr a1"
    using inplace_shape [OF f(8) sh(1), of "(*)"] t by auto
  obtain g1 where g1: "inplace (*) gr (velocity m) = Inr g1"
    using inplace_shape [OF f(9) sh(1), of "(*)"] t by auto
  obtain i1 where i1: "inplace (*) inertia (velocity m) = Inr i1"
    using inplace_shape [OF f(10) sh(1), of "(*)"] t by auto
  obtain b1 where b1: "inplace (*) (braking_loss_of inertia) (velocity m) = Inr b1"
    using inplace_shape [OF bl sh(1), of "(*)"] t by auto
  have tsh: "shape (transpose_T TTW) = (V, Y, P, S)"
    using shapes(5) by simp
  obtain e where e: "broadcast (\<lambda>x e. fdiv (Some x) e) tp (transpose_T TTW) = Inr e"
    "shape e = (d0, Y, P, 6)"
    using broadcast_shape [OF f(11) tsh, of d0 Y P 6 "\<lambda>x e. fdiv (Some x) e"]
      bdim_absorb(1) [OF time] size by auto
  have "motive_energy_per_km m (DataArray M) (DataArray RR) (DataArray DRAG)
            (DataArray AREA) (DataArray TTW) rec mp True =
      Inr (Debug \<lparr>dbg_rolling_resistance = r1, dbg_air_resistance = a1,
                 dbg_gradient_resistance = g1, dbg_inertia = i1, dbg_braking_loss = b1,
                 dbg_total_power = tp, dbg_energy = map_tensor (\<lambda>x. fdiv x 1000) e\<rparr>)"
    unfolding motive_energy_per_km_def sum_axis0_0_0_init [OF init] bnd_Inr Let_def
      f(1-6) r1 a1 g1 i1 b1
    by (simp add: py_values_def e(1))
  then show ?thesis
    using e(2) f(11) by auto
qed

text \<open>The energy component of the debug mode, written out.\<close>

lemma motive_debug_value:
  assumes run: "motive_energy_per_km m dm rr dc fa ttw rec mp True = Inr r"
  obtains d where "r = Debug d"
    "\<And>t y p s. bget (dbg_total_power d) t y p s =
       max (bget (dbg_rolling_resistance d) t y p s + bget (dbg_air_resistance d) t y p s
            + bget (dbg_gradient_resistance d) t y p s + bget (dbg_inertia d) t y p s) 0"
    "\<And>t y p s. bget (dbg_total_power d) t y p s =
       max ((pget dm t y p s * pget rr t y p s * 9.81 * 1
                 + pget fa t y p s * pget dc t y p s * rho_air m / 2
                     * (bget (velocity m) t y p s) ^ 2
                 + pget dm t y p s * 9.81 * sin (bget (gradient m) t y p s)
                 + bget (acceleration m) t y p s * pget dm t y p s)
                * bget (velocity m) t y p s) 0"
    "\<And>t y p s. bget (dbg_braking_loss d) t y p s =
       (if bget (acceleration m) t y p s * pget dm t y p s < 0
        then bget (acceleration m) t y p s * pget dm t y p s * - 1 else 0)
       * bget (velocity m) t y p s"
    "\<And>t y p s. bget (dbg_energy d) t y p s =
        fdiv (fdiv (Some (bget (dbg_total_power d) t y p s)) (pget ttw t y p s)) 1000"
proof -
  obtain d rolling air grad inertia x where h:
    "r = Debug d"
    "rolling_resistance_of m dm rr = Inr rolling"
    "air_resistance_of m fa dc = Inr air"
    "gradient_resistance_of m dm = Inr grad"
    "inertia_of m dm = Inr inertia"
    "total_resistance_of rolling air grad inertia = Inr x"
    "clipped_total_power m x = Inr (dbg_total_power d)"
    "\<And>t y p s. bget (dbg_rolling_resistance d) t y p s =
        bget rolling t y p s * bget (velocity m) t y p s"
    "\<And>t y p s. bget (dbg_air_resistance d) t y p s =
        bget air t y p s * bget (velocity m) t y p s"
    "\<And>t y p s. bget (dbg_gradient_resistance d) t y p s =
        bget grad t y p s * bget (velocity m) t y p s"
    "\<And>t y p s. bget (dbg_inertia d) t y p s =
        bget inertia t y p s * bget (velocity m) t y p s"
    "\<And>t y p s. bget (dbg_braking_loss d) t y p s =
        bget (braking_loss_of inertia) t y p s * bget (velocity m) t y p s"
    "\<And>t y p s. bget (dbg_energy d) t y p s =
        fdiv (fdiv (Some (bget (dbg_total_power d) t y p s)) (pget ttw t y p s)) 1000"
    by (rule motive_energy_per_km_Debug [OF run]) (rule that)
  have tp: "bget (dbg_total_power d) t y p s =
      max ((bget rolling t y p s + bget air t y p s + bget grad t y p s + bget inertia t y p s)
           * bget (velocity m) t y p s) 0" for t y p s
    unfolding clipped_total_power_bget [OF h(7)] total_resistance_bget [OF h(6)] ..
  show thesis
  proof (rule that [OF h(1) _ _ _ h(13)])
    show "bget (dbg_total_power d) t y p s =
       max (bget (dbg_rolling_resistance d) t y p s + bget (dbg_air_resistance d) t y p s
            + bget (dbg_gradient_resistance d) t y p s + bget (dbg_inertia d) t y p s) 0"
      for t y p s
      unfolding tp h(8-11) by (simp add: distrib_right)
    show "bget (dbg_total_power d) t y p s =
       max ((pget dm t y p s * pget rr t y p s * 9.81 * 1
                 + pget fa t y p s * pget dc t y p s * rho_air m / 2
                     * (bget (velocity m) t y p s) ^ 2
                 + pget dm t y p s * 9.81 * sin (bget (gradient m) t y p s)
                 + bget (acceleration m) t y p s * pget dm t y p s)
                * bget (velocity m) t y p s) 0" for t y p s
      unfolding tp rolling_resistance_bget [OF h(2)] air_resistance_bget [OF h(3)]
        gradient_resistance_bget [OF h(4)] inertia_bget [OF h(5)] ..
    show "bget (dbg_braking_loss d) t y p s =
       (if bget (acceleration m) t y p s * pget dm t y p s < 0
        then bget (acceleration m) t y p s * pget dm t y p s * - 1 else 0)
       * bget (velocity m) t y p s" for t y p s
      unfolding h(12) braking_loss_bget inertia_bget [OF h(5)] ..
  qed
qed

lemma bget_item_5116:
  assumes "shape a = (5, 1, 1, 6)"
  shows "bget a t 0 0 0 = item a t 0 0 0"
  using assms by (simp add: bget_def bix_def)



subsection \<open>Claims about the motive energy\<close>

text \<open>
  Claim C1, as amended. On a constructed model, whenever \<^verbatim>\<open>motive_energy_per_km\<close> with
  \<^verbatim>\<open>debug_mode=False\<close> returns, it returns one array whose element at (time, year,
  powertrain, size) is computed from \<open>total_power = max (total_resistance * velocity) 0\<close>
  with \<open>total_resistance = rolling_resistance + air_resistance + gradient_resistance +
  inertia\<close> (the braking loss is not part of it), minus the recuperated power, divided by
  the distance in km (the per-size sum of the velocity series / 1000), then by
  \<open>ttw_efficiency\<close>, then by 1000. The result is not reduced over time: its first axis is
  the time axis of the velocity series (unless that has length 1) and its last axis has
  the six sizes. On parameter arrays of one common shape (size 6 or 1, powertrain, year,
  value) that broadcast against the series the call does return, with shape
  (time, year, powertrain, 6).
\<close>

theorem motive_energy_per_km_normal_mode:
  assumes "init gsd gg cycle_in rho = Inr m"
  shows
   "(\<forall>r. motive_energy_per_km m dm rr dc fa ttw rec mp False = Inr r \<longrightarrow>
      (\<exists>out. r = Energy out \<and>
         (n0 out = n0 (velocity m) \<or> n0 (velocity m) = 1) \<and> n3 out = 6 \<and>
         (\<forall>t y p s.
            let v = bget (velocity m) t y p s;
                rolling_resistance = pget dm t y p s * pget rr t y p s * 9.81 * 1;
                air_resistance = pget fa t y p s * pget dc t y p s * rho_air m / 2 * v ^ 2;
                gradient_resistance =
                  pget dm t y p s * 9.81 * sin (bget (gradient m) t y p s);
                inertia = bget (acceleration m) t y p s * pget dm t y p s;
                braking_loss = (if inertia < 0 then inertia * - 1 else 0);
                total_resistance =
                  rolling_resistance + air_resistance + gradient_resistance + inertia;
                total_power = max (total_resistance * v) 0;
                recuperated_power =
                  min (max (braking_loss * pget rec t y p s * v) 0) (pget mp t y p s * 1000);
                distance = (\<Sum>t\<leftarrow>[0..<n0 (velocity m)]. item (velocity m) t 0 0 s) / 1000
            in bget out t y p s =
                 fdiv (fdiv (fdiv (Some (total_power - recuperated_power)) distance)
                   (pget ttw t y p s)) 1000))) \<and>
    (n0 (gradient m) = n0 (velocity m) \<and>
     shape M = (S, P, Y, V) \<and> shape RR = (S, P, Y, V) \<and> shape DRAG = (S, P, Y, V) \<and>
     shape AREA = (S, P, Y, V) \<and> shape TTW = (S, P, Y, V) \<and> shape REC = (S, P, Y, V) \<and>
     shape MP = (S, P, Y, V) \<and> (S = 6 \<or> S = 1) \<and> bdim V (n0 (velocity m)) = Some d0 \<longrightarrow>
      (\<exists>out. motive_energy_per_km m (DataArray M) (DataArray RR) (DataArray DRAG)
            (DataArray AREA) (DataArray TTW) (DataArray REC) (DataArray MP) False
          = Inr (Energy out) \<and> shape out = (d0, Y, P, 6)))"
proof (intro conjI allI impI)
  fix r
  assume run: "motive_energy_per_km m dm rr dc fa ttw rec mp False = Inr r"
  obtain out where o: "r = Energy out"
    "n0 out = n0 (velocity m) \<or> n0 (velocity m) = 1" "n3 out = 6"
    "\<And>t y p s. bget out t y p s =
       fdiv (fdiv (fdiv (Some (
           max ((pget dm t y p s * pget rr t y p s * 9.81 * 1
                 + pget fa t y p s * pget dc t y p s * rho_air m / 2
                     * (bget (velocity m) t y p s) ^ 2
                 + pget dm t y p s * 9.81 * sin (bget (gradient m) t y p s)
                 + bget (acceleration m) t y p s * pget dm t y p s)
                * bget (velocity m) t y p s) 0
         - min (max ((if bget (acceleration m) t y p s * pget dm t y p s < 0
                      then bget (acceleration m) t y p s * pget dm t y p s * - 1 else 0)
                     * pget rec t y p s * bget (velocity m) t y p s) 0)
               (pget mp t y p s * 1000)))
          ((\<Sum>t\<leftarrow>[0..<n0 (velocity m)]. item (velocity m) t 0 0 s) / 1000))
          (pget ttw t y p s)) 1000"
    by (rule motive_energy_value [OF assms run]) (rule that)
  show "\<exists>out. r = Energy out \<and>
         (n0 out = n0 (velocity m) \<or> n0 (velocity m) = 1) \<and> n3 out = 6 \<and>
         (\<forall>t y p s.
            let v = bget (velocity m) t y p s;
                rolling_resistance = pget dm t y p s * pget rr t y p s * 9.81 * 1;
                air_resistance = pget fa t y p s * pget dc t y p s * rho_air m / 2 * v ^ 2;
                gradient_resistance =
                  pget dm t y p s * 9.81 * sin (bget (gradient m) t y p s);
                inertia = bget (acceleration m) t y p s * pget dm t y p s;
                braking_loss = (if inertia < 0 then inertia * - 1 else 0);
                total_resistance =
                  rolling_resistance + air_resistance + gradient_resistance + inertia;
                total_power = max (total_resistance * v) 0;
                recuperated_power =
                  min (max (braking_loss * pget rec t y p s * v) 0) (pget mp t y p s * 1000);
                distance = (\<Sum>t\<leftarrow>[0..<n0 (velocity m)]. item (velocity m) t 0 0 s) / 1000
            in bget out t y p s =
                 fdiv (fdiv (fdiv (Some (total_power - recuperated_power)) distance)
                   (pget ttw t y p s)) 1000)"
    unfolding Let_def using o by blast
next
  assume a: "n0 (gradient m) = n0 (velocity m) \<and>
     shape M = (S, P, Y, V) \<and> shape RR = (S, P, Y, V) \<and> shape DRAG = (S, P, Y, V) \<and>
     shape AREA = (S, P, Y, V) \<and> shape TTW = (S, P, Y, V) \<and> shape REC = (S, P, Y, V) \<and>
     shape MP = (S, P, Y, V) \<and> (S = 6 \<or> S = 1) \<and> bdim V (n0 (velocity m)) = Some d0"
  show "\<exists>out. motive_energy_per_km m (DataArray M) (DataArray RR) (DataArray DRAG)
            (DataArray AREA) (DataArray TTW) (DataArray REC) (DataArray MP) False
          = Inr (Energy out) \<and> shape out = (d0, Y, P, 6)"
    by (rule motive_energy_per_km_ok [OF assms]) (use a in blast)+
qed

theorem motive_energy_per_km_normal_mode_witness:
  "\<exists>m out. init no_registry flat_gradients (NdArray example_cycle) (1204 / 1000) = Inr m \<and>
     motive_energy_per_km m (DataArray (const_param 10000))
       (DataArray (const_param 0.006)) (DataArray (const_param 0.6)) (DataArray (const_param 8))
       (DataArray (const_param 0.4)) (DataArray (const_param 0)) (DataArray (const_param 0))
       False = Inr (Energy out) \<and>
     shape out = (5, 1, 1, 6) \<and> bget out 2 0 0 0 = Some (91501 / 108)"
proof -
  obtain m where m: "init no_registry flat_gradients (NdArray example_cycle) (1204 / 1000) = Inr m"
    using example_init_ok by blast
  note t = motive_energy_per_km_normal_mode [OF m,
      where dm = "DataArray (const_param 10000)" and rr = "DataArray (const_param 0.006)"
        and dc = "DataArray (const_param 0.6)" and fa = "DataArray (const_param 8)"
        and ttw = "DataArray (const_param 0.4)" and rec = "DataArray (const_param 0)"
        and mp = "DataArray (const_param 0)"
        and M = "const_param 10000" and RR = "const_param 0.006" and DRAG = "const_param 0.6"
        and AREA = "const_param 8" and TTW = "const_param 0.4" and REC = "const_param 0"
        and MP = "const_param 0" and S = 6 and P = 1 and Y = 1 and V = 1 and ?d0.0 = 5]
  have pre: "n0 (gradient m) = n0 (velocity m)" "bdim 1 (n0 (velocity m)) = Some 5"
    by (simp_all add: example_series(9) [OF m] example_velocity(1) [OF m])
  from t pre obtain out where o: "motive_energy_per_km m (DataArray (const_param 10000))
       (DataArray (const_param 0.006)) (DataArray (const_param 0.6)) (DataArray (const_param 8))
       (DataArray (const_param 0.4)) (DataArray (const_param 0)) (DataArray (const_param 0))
       False = Inr (Energy out)" "shape out = (5, 1, 1, 6)"
    by auto
  note s = example_series [OF m]
  have d: "(\<Sum>t\<leftarrow>[0..<n0 (velocity m)]. item (velocity m) t 0 0 0) = 100 / 9"
    unfolding example_velocity(1) [OF m] by (rule example_distance [OF m])
  have g: "sin (bget (gradient m) 2 0 0 0) = 0"
    by (simp add: s(7))
  from t o(1) have "bget out 2 0 0 0 =
       fdiv (fdiv (fdiv (Some (
           max ((pget (DataArray (const_param 10000)) 2 0 0 0
                   * pget (DataArray (const_param 0.006)) 2 0 0 0 * 9.81 * 1
                 + pget (DataArray (const_param 8)) 2 0 0 0
                     * pget (DataArray (const_param 0.6)) 2 0 0 0 * rho_air m / 2
                     * (bget (velocity m) 2 0 0 0) ^ 2
                 + pget (DataArray (const_param 10000)) 2 0 0 0 * 9.81
                     * sin (bget (gradient m) 2 0 0 0)
                 + bget (acceleration m) 2 0 0 0 * pget (DataArray (const_param 10000)) 2 0 0 0)
                * bget (velocity m) 2 0 0 0) 0
         - min (max ((if bget (acceleration m) 2 0 0 0
                           * pget (DataArray (const_param 10000)) 2 0 0 0 < 0
                      then bget (acceleration m) 2 0 0 0
                           * pget (DataArray (const_param 10000)) 2 0 0 0 * - 1 else 0)
                     * pget (DataArray (const_param 0)) 2 0 0 0 * bget (velocity m) 2 0 0 0) 0)
               (pget (DataArray (const_param 0)) 2 0 0 0 * 1000)))
          ((\<Sum>t\<leftarrow>[0..<n0 (velocity m)]. item (velocity m) t 0 0 0) / 1000))
          (pget (DataArray (const_param 0.4)) 2 0 0 0)) 1000"
    unfolding Let_def by auto
  then have "bget out 2 0 0 0 = Some (91501 / 108)"
    unfolding const_param_simps d g s(1-6,8)
    by (simp add: fdiv_def power2_eq_square)
  with m o show ?thesis by blast
qed


text \<open>
  The claim as stated fails: on the five-second example the result has a time axis of
  length 5, with different values at the time steps 1 and 2.
\<close>

theorem output_keeps_time_axis_counterexample:
  "\<exists>m out. init no_registry flat_gradients (NdArray example_cycle) (1204 / 1000) = Inr m \<and>
     motive_energy_per_km m (DataArray (const_param 10000))
       (DataArray (const_param 0.006)) (DataArray (const_param 0.6)) (DataArray (const_param 8))
       (DataArray (const_param 0.4)) (DataArray (const_param 0)) (DataArray (const_param 0))
       False = Inr (Energy out) \<and>
     shape out = (5, 1, 1, 6) \<and>
     item out 1 0 0 0 = Some (3832471 / 216) \<and> item out 2 0 0 0 = Some (91501 / 108)"
proof -
  obtain m where m: "init no_registry flat_gradients (NdArray example_cycle) (1204 / 1000) = Inr m"
    using example_init_ok by blast
  from example_motive_ok [OF m, of 0 0] obtain out where o:
    "motive_energy_per_km m (DataArray (const_param 10000))
       (DataArray (const_param 0.006)) (DataArray (const_param 0.6)) (DataArray (const_param 8))
       (DataArray (const_param 0.4)) (DataArray (const_param 0)) (DataArray (const_param 0))
       False = Inr (Energy out)" "shape out = (5, 1, 1, 6)"
    by blast
  have "item out 1 0 0 0 = Some (3832471 / 216)" "item out 2 0 0 0 = Some (91501 / 108)"
    using example_motive_values(1,2) [OF m o(1)]
    unfolding bget_item_5116 [OF o(2)] by simp_all
  with m o show ?thesis by blast
qed

lemma net_total_power_Inr:
  assumes "net_total_power tp rp = Inr net"
  shows "shape net = shape tp" "bget net t y p s = bget tp t y p s - bget rp t y p s"
  using inplace_Inr(2-5) [OF assms [unfolded net_total_power_def]]
    inplace_bget [OF assms [unfolded net_total_power_def]]
  by (simp_all add: shape_def)

text \<open>The example with full recuperation and a 100 kW motor, at the braking time step 3.\<close>

lemma example_recuperation:
  assumes m: "init no_registry flat_gradients (NdArray example_cycle) (1204 / 1000) = Inr m"
  obtains out rolling air grad inertia x tp rp net where
    "motive_energy_per_km m (DataArray (const_param 10000))
       (DataArray (const_param 0.006)) (DataArray (const_param 0.6)) (DataArray (const_param 8))
       (DataArray (const_param 0.4)) (DataArray (const_param 1)) (DataArray (const_param 100))
       False = Inr (Energy out)"
    "rolling_resistance_of m (DataArray (const_param 10000)) (DataArray (const_param 0.006))
       = Inr rolling"
    "air_resistance_of m (DataArray (const_param 8)) (DataArray (const_param 0.6)) = Inr air"
    "gradient_resistance_of m (DataArray (const_param 10000)) = Inr grad"
    "inertia_of m (DataArray (const_param 10000)) = Inr inertia"
    "total_resistance_of rolling air grad inertia = Inr x"
    "clipped_total_power m x = Inr tp"
    "recuperated_power_of m (braking_loss_of inertia) (DataArray (const_param 1))
       (DataArray (const_param 100)) = Inr rp"
    "net_total_power tp rp = Inr net"
    "shape out = (5, 1, 1, 6)" "shape net = (5, 1, 1, 6)"
    "bget tp 3 0 0 0 = 0" "bget rp 3 0 0 0 = 6250000 / 81"
    "bget net 3 0 0 0 = - (6250000 / 81)"
    "bget out 3 0 0 0 = Some (- (156250 / 9))"
proof -
  from example_motive_ok [OF m, of 1 100] obtain out where o:
    "motive_energy_per_km m (DataArray (const_param 10000))
       (DataArray (const_param 0.006)) (DataArray (const_param 0.6)) (DataArray (const_param 8))
       (DataArray (const_param 0.4)) (DataArray (const_param 1)) (DataArray (const_param 100))
       False = Inr (Energy out)" "shape out = (5, 1, 1, 6)"
    by blast
  obtain out' rolling air grad inertia x tp rp net where h:
    "Energy out = Energy out'"
    "rolling_resistance_of m (DataArray (const_param 10000)) (DataArray (const_param 0.006))
       = Inr rolling"
    "air_resistance_of m (DataArray (const_param 8)) (DataArray (const_param 0.6)) = Inr air"
    "gradient_resistance_of m (DataArray (const_param 10000)) = Inr grad"
    "inertia_of m (DataArray (const_param 10000)) = Inr inertia"
    "total_resistance_of rolling air grad inertia = Inr x"
    "clipped_total_power m x = Inr tp"
    "recuperated_power_of m (braking_loss_of inertia) (DataArray (const_param 1))
       (DataArray (const_param 100)) = Inr rp"
    "net_total_power tp rp = Inr net"
    "n0 out' = n0 tp" "n1 out' = n1 tp" "n2 out' = n2 tp" "n3 out' = n3 tp"
    by (rule motive_energy_per_km_Energy [OF m o(1)]) (rule that)
  from h(1) have e: "out' = out" by simp
  have nsh: "shape net = (5, 1, 1, 6)"
    using net_total_power_Inr(1) [OF h(9)] h(10-13) o(2) unfolding e by simp
  note s = example_series [OF m]
  have g: "sin (bget (gradient m) 3 0 0 0) = 0"
    by (simp add: s(7))
  have tp: "bget tp 3 0 0 0 = 0"
    unfolding clipped_total_power_bget [OF h(7)] total_resistance_bget [OF h(6)]
      rolling_resistance_bget [OF h(2)] air_resistance_bget [OF h(3)]
      gradient_resistance_bget [OF h(4)] inertia_bget [OF h(5)] const_param_simps g s(1-6,8)
    by (simp add: power2_eq_square)
  have rp: "bget rp 3 0 0 0 = 6250000 / 81"
    unfolding recuperated_power_bget [OF h(8)] braking_loss_bget inertia_bget [OF h(5)]
      const_param_simps s(1-6,8)
    by simp
  have net: "bget net 3 0 0 0 = - (6250000 / 81)"
    unfolding net_total_power_Inr(2) [OF h(9)] tp rp by simp
  have out: "bget out 3 0 0 0 = Some (- (156250 / 9))"
    using example_motive_values(3) [OF m o(1)] by simp
  show thesis
    by (rule that [OF o(1) h(2-9) o(2) nsh tp rp net out])
qed



text \<open>
  Claim C2, as amended. In \<^verbatim>\<open>motive_energy_per_km\<close> with \<^verbatim>\<open>debug_mode=False\<close>, at
  every time step and for every vehicle variant: \<open>total_power\<close> before the subtraction
  is at least 0; \<open>recuperated_power\<close> is \<open>braking_loss * recuperation_efficiency *
  velocity\<close> clipped to at least 0 and then to at most \<open>motor_power * 1000\<close>, so it lies
  in \<open>[0, motor_power * 1000]\<close> where \<open>motor_power\<close> is not negative; the net
  \<open>total_power\<close> is the difference of the two. It is not clipped again: it is at
  least \<open>- motor_power * 1000\<close> and can be negative.
\<close>

theorem power_bounds_normal_mode:
  assumes "init gsd gg cycle_in rho = Inr m"
    and "motive_energy_per_km m dm rr dc fa ttw rec mp False = Inr r"
  shows "\<exists>rolling air grad inertia x tp rp net.
     rolling_resistance_of m dm rr = Inr rolling \<and>
     air_resistance_of m fa dc = Inr air \<and>
     gradient_resistance_of m dm = Inr grad \<and>
     inertia_of m dm = Inr inertia \<and>
     total_resistance_of rolling air grad inertia = Inr x \<and>
     clipped_total_power m x = Inr tp \<and>
     recuperated_power_of m (braking_loss_of inertia) rec mp = Inr rp \<and>
     net_total_power tp rp = Inr net \<and>
     (\<forall>t y p s.
        0 \<le> bget tp t y p s \<and>
        bget rp t y p s =
          min (max (bget (braking_loss_of inertia) t y p s * pget rec t y p s
                    * bget (velocity m) t y p s) 0) (pget mp t y p s * 1000) \<and>
        (0 \<le> pget mp t y p s \<longrightarrow>
           0 \<le> bget rp t y p s \<and> bget rp t y p s \<le> pget mp t y p s * 1000) \<and>
        bget net t y p s = bget tp t y p s - bget rp t y p s \<and>
        (0 \<le> pget mp t y p s \<longrightarrow> - (pget mp t y p s * 1000) \<le> bget net t y p s))"
proof -
  obtain out rolling air grad inertia x tp rp net where h:
    "r = Energy out"
    "rolling_resistance_of m dm rr = Inr rolling"
    "air_resistance_of m fa dc = Inr air"
    "gradient_resistance_of m dm = Inr grad"
    "inertia_of m dm = Inr inertia"
    "total_resistance_of rolling air grad inertia = Inr x"
    "clipped_total_power m x = Inr tp"
    "recuperated_power_of m (braking_loss_of inertia) rec mp = Inr rp"
    "net_total_power tp rp = Inr net"
    by (rule motive_energy_per_km_Energy [OF assms]) (rule that)
  have tp: "0 \<le> bget tp t y p s" for t y p s
    unfolding clipped_total_power_bget [OF h(7)] by simp
  note rp = recuperated_power_bget [OF h(8)]
  have rp0: "0 \<le> bget rp t y p s" if "0 \<le> pget mp t y p s" for t y p s
    unfolding rp using that by simp
  have rp1: "bget rp t y p s \<le> pget mp t y p s * 1000" for t y p s
    unfolding rp by simp
  note net = net_total_power_Inr(2) [OF h(9)]
  have netb: "- (pget mp t y p s * 1000) \<le> bget net t y p s"
    if "0 \<le> pget mp t y p s" for t y p s
    unfolding net using tp [of t y p s] rp1 [of t y p s] by linarith
  have all: "\<forall>t y p s.
        0 \<le> bget tp t y p s \<and>
        bget rp t y p s =
          min (max (bget (braking_loss_of inertia) t y p s * pget rec t y p s
                    * bget (velocity m) t y p s) 0) (pget mp t y p s * 1000) \<and>
        (0 \<le> pget mp t y p s \<longrightarrow>
           0 \<le> bget rp t y p s \<and> bget rp t y p s \<le> pget mp t y p s * 1000) \<and>
        bget net t y p s = bget tp t y p s - bget rp t y p s \<and>
        (0 \<le> pget mp t y p s \<longrightarrow> - (pget mp t y p s * 1000) \<le> bget net t y p s)"
    by (intro allI conjI impI) (rule tp rp net rp1 | erule rp0 netb)+
  show ?thesis
    by (intro exI conjI) (rule h(2-9) all)+
qed


theorem power_bounds_normal_mode_witness:
  "\<exists>m r rolling air grad inertia x tp rp net.
     init no_registry flat_gradients (NdArray example_cycle) (1204 / 1000) = Inr m \<and>
     motive_energy_per_km m (DataArray (const_param 10000))
       (DataArray (const_param 0.006)) (DataArray (const_param 0.6)) (DataArray (const_param 8))
       (DataArray (const_param 0.4)) (DataArray (const_param 1)) (DataArray (const_param 100))
       False = Inr r \<and>
     inertia_of m (DataArray (const_param 10000)) = Inr inertia \<and>
     clipped_total_power m x = Inr tp \<and>
     recuperated_power_of m (braking_loss_of inertia) (DataArray (const_param 1))
       (DataArray (const_param 100)) = Inr rp \<and>
     net_total_power tp rp = Inr net \<and>
     0 \<le> bget tp 3 0 0 0 \<and> 0 \<le> bget rp 3 0 0 0 \<and> bget rp 3 0 0 0 \<le> 100 * 1000 \<and>
     - (100 * 1000) \<le> bget net 3 0 0 0"
proof -
  obtain m where m: "init no_registry flat_gradients (NdArray example_cycle) (1204 / 1000) = Inr m"
    using example_init_ok by blast
  from example_motive_ok [OF m, of 1 100] obtain out where o:
    "motive_energy_per_km m (DataArray (const_param 10000))
       (DataArray (const_param 0.006)) (DataArray (const_param 0.6)) (DataArray (const_param 8))
       (DataArray (const_param 0.4)) (DataArray (const_param 1)) (DataArray (const_param 100))
       False = Inr (Energy out)"
    by blast
  from power_bounds_normal_mode [OF m o] obtain inertia x tp rp net where h:
    "inertia_of m (DataArray (const_param 10000)) = Inr inertia"
    "clipped_total_power m x = Inr tp"
    "recuperated_power_of m (braking_loss_of inertia) (DataArray (const_param 1))
       (DataArray (const_param 100)) = Inr rp"
    "net_total_power tp rp = Inr net"
    "\<forall>t y p s.
        0 \<le> bget tp t y p s \<and>
        bget rp t y p s =
          min (max (bget (braking_loss_of inertia) t y p s
                    * pget (DataArray (const_param 1)) t y p s
                    * bget (velocity m) t y p s) 0)
              (pget (DataArray (const_param 100)) t y p s * 1000) \<and>
        (0 \<le> pget (DataArray (const_param 100)) t y p s \<longrightarrow>
           0 \<le> bget rp t y p s \<and>
           bget rp t y p s \<le> pget (DataArray (const_param 100)) t y p s * 1000) \<and>
        bget net t y p s = bget tp t y p s - bget rp t y p s \<and>
        (0 \<le> pget (DataArray (const_param 100)) t y p s \<longrightarrow>
           - (pget (DataArray (const_param 100)) t y p s * 1000) \<le> bget net t y p s)"
    by blast
  from h(5) [rule_format, of 3 0 0 0]
  have "0 \<le> bget tp 3 0 0 0 \<and> 0 \<le> bget rp 3 0 0 0 \<and> bget rp 3 0 0 0 \<le> 100 * 1000 \<and>
     - (100 * 1000) \<le> bget net 3 0 0 0"
    unfolding const_param_simps by simp
  with m o h(1-4) show ?thesis by blast
qed


text \<open>
  The claim as stated fails: with full recuperation and a 100 kW motor the net power of
  the braking time step 3 of the example is negative, and so is the returned energy.
\<close>

theorem net_power_negative_counterexample:
  "\<exists>m out rolling air grad inertia x tp rp net.
     init no_registry flat_gradients (NdArray example_cycle) (1204 / 1000) = Inr m \<and>
     motive_energy_per_km m (DataArray (const_param 10000))
       (DataArray (const_param 0.006)) (DataArray (const_param 0.6)) (DataArray (const_param 8))
       (DataArray (const_param 0.4)) (DataArray (const_param 1)) (DataArray (const_param 100))
       False = Inr (Energy out) \<and>
     rolling_resistance_of m (DataArray (const_param 10000)) (DataArray (const_param 0.006))
       = Inr rolling \<and>
     air_resistance_of m (DataArray (const_param 8)) (DataArray (const_param 0.6)) = Inr air \<and>
     gradient_resistance_of m (DataArray (const_param 10000)) = Inr grad \<and>
     inertia_of m (DataArray (const_param 10000)) = Inr inertia \<and>
     total_resistance_of rolling air grad inertia = Inr x \<and>
     clipped_total_power m x = Inr tp \<and>
     recuperated_power_of m (braking_loss_of inertia) (DataArray (const_param 1))
       (DataArray (const_param 100)) = Inr rp \<and>
     net_total_power tp rp = Inr net \<and>
     shape net = (5, 1, 1, 6) \<and>
     item net 3 0 0 0 = - (6250000 / 81) \<and> item net 3 0 0 0 < 0 \<and>
     item out 3 0 0 0 = Some (- (156250 / 9))"
proof -
  obtain m where m: "init no_registry flat_gradients (NdArray example_cycle) (1204 / 1000) = Inr m"
    using example_init_ok by blast
  obtain out rolling air grad inertia x tp rp net where h:
    "motive_energy_per_km m (DataArray (const_param 10000))
       (DataArray (const_param 0.006)) (DataArray (const_param 0.6)) (DataArray (const_param 8))
       (DataArray (const_param 0.4)) (DataArray (const_param 1)) (DataArray (const_param 100))
       False = Inr (Energy out)"
    "rolling_resistance_of m (DataArray (const_param 10000)) (DataArray (const_param 0.006))
       = Inr rolling"
    "air_resistance_of m (DataArray (const_param 8)) (DataArray (const_param 0.6)) = Inr air"
    "gradient_resistance_of m (DataArray (const_param 10000)) = Inr grad"
    "inertia_of m (DataArray (const_param 10000)) = Inr inertia"
    "total_resistance_of rolling air grad inertia = Inr x"
    "clipped_total_power m x = Inr tp"
    "recuperated_power_of m (braking_loss_of inertia) (DataArray (const_param 1))
       (DataArray (const_param 100)) = Inr rp"
    "net_total_power tp rp = Inr net"
    "shape out = (5, 1, 1, 6)" "shape net = (5, 1, 1, 6)"
    "bget tp 3 0 0 0 = 0" "bget rp 3 0 0 0 = 6250000 / 81"
    "bget net 3 0 0 0 = - (6250000 / 81)"
    "bget out 3 0 0 0 = Some (- (156250 / 9))"
    by (rule example_recuperation [OF m]) (rule that)
  have v: "item net 3 0 0 0 = - (6250000 / 81)" "item out 3 0 0 0 = Some (- (156250 / 9))"
    using h(14,15) unfolding bget_item_5116 [OF h(10)] bget_item_5116 [OF h(11)] .
  then have neg: "item net 3 0 0 0 < 0" by simp
  show ?thesis
    by (intro exI conjI) (rule m h(1-9) h(11) v neg)+
qed

lemma example_series_ends:
  assumes m: "init no_registry flat_gradients (NdArray example_cycle) rho = Inr m"
  shows "bget (velocity m) 0 0 0 0 = 0" "bget (velocity m) 4 0 0 0 = 0"
    "bget (acceleration m) 0 0 0 0 = 0" "bget (acceleration m) 4 0 0 0 = 0"
proof -
  note d = init_dims [OF m]
  note v = example_velocity [OF m]
  have n: "n0 (acceleration m) = 5"
    using d v(1) by simp
  have vb: "bget (velocity m) t 0 0 0 = item (velocity m) t 0 0 0" for t
    using d v(1) by (simp add: bget_def bix_def)
  show "bget (velocity m) 0 0 0 0 = 0" "bget (velocity m) 4 0 0 0 = 0"
    unfolding vb v(2) by (simp_all add: example_cycle_def)
  have ab: "bget (acceleration m) t 0 0 0 = item (acceleration m) t 0 0 0" for t
    using d n by (simp add: bget_def bix_def)
  show "bget (acceleration m) 0 0 0 0 = 0" "bget (acceleration m) 4 0 0 0 = 0"
    unfolding ab using init_acceleration [OF m] n by simp_all
qed

lemma fdiv_order: "fdiv (fdiv (fdiv (Some x) d) e) 1000 = fdiv (fdiv (fdiv (Some x) e) 1000) d"
  by (simp add: fdiv_def)

lemma example_debug_ok:
  assumes m: "init no_registry flat_gradients (NdArray example_cycle) rho = Inr m"
  shows "\<exists>d. motive_energy_per_km m (DataArray (const_param 10000))
     (DataArray (const_param 0.006)) (DataArray (const_param 0.6)) (DataArray (const_param 8))
     (DataArray (const_param 0.4)) rec mp True = Inr (Debug d) \<and>
     shape (dbg_energy d) = (5, 1, 1, 6) \<and> shape (dbg_total_power d) = (5, 1, 1, 6)"
proof -
  have t: "bdim 1 (n0 (velocity m)) = Some 5"
    by (simp add: example_velocity(1) [OF m])
  show ?thesis
    by (rule motive_energy_per_km_debug_ok
        [where S = 6 and P = 1 and Y = 1 and V = 1, OF m example_series(9) [OF m] _ _ _ _ _ _ t])
      simp_all
qed

lemma example_debug_values:
  assumes m: "init no_registry flat_gradients (NdArray example_cycle) (1204 / 1000) = Inr m"
    and run: "motive_energy_per_km m (DataArray (const_param 10000))
     (DataArray (const_param 0.006)) (DataArray (const_param 0.6)) (DataArray (const_param 8))
     (DataArray (const_param 0.4)) rec mp True = Inr (Debug d)"
  shows "bget (dbg_energy d) 0 0 0 0 = Some 0"
    "bget (dbg_energy d) 1 0 0 0 = Some (3832471 / 19440)"
    "bget (dbg_energy d) 2 0 0 0 = Some (91501 / 9720)"
    "bget (dbg_energy d) 3 0 0 0 = Some 0"
    "bget (dbg_energy d) 4 0 0 0 = Some 0"
proof -
  obtain d' where d: "Debug d = Debug d'"
    "\<And>t y p s. bget (dbg_total_power d') t y p s =
       max ((pget (DataArray (const_param 10000)) t y p s
                   * pget (DataArray (const_param 0.006)) t y p s * 9.81 * 1
                 + pget (DataArray (const_param 8)) t y p s
                     * pget (DataArray (const_param 0.6)) t y p s * rho_air m / 2
                     * (bget (velocity m) t y p s) ^ 2
                 + pget (DataArray (const_param 10000)) t y p s * 9.81
                     * sin (bget (gradient m) t y p s)
                 + bget (acceleration m) t y p s * pget (DataArray (const_param 10000)) t y p s)
                * bget (velocity m) t y p s) 0"
    "\<And>t y p s. bget (dbg_energy d') t y p s =
        fdiv (fdiv (Some (bget (dbg_total_power d') t y p s))
          (pget (DataArray (const_param 0.4)) t y p s)) 1000"
    by (rule motive_debug_value [OF run]) (rule that)
  from d(1) have e: "d' = d" by simp
  note s = example_series [OF m]
  note z = example_series_ends [OF m]
  have g: "sin (bget (gradient m) 1 0 0 0) = 0" "sin (bget (gradient m) 2 0 0 0) = 0"
    "sin (bget (gradient m) 3 0 0 0) = 0"
    by (simp_all add: s(7))
  show "bget (dbg_energy d) 0 0 0 0 = Some 0"
    unfolding e [symmetric] d(3) d(2) const_param_simps z by (simp add: fdiv_def)
  show "bget (dbg_energy d) 4 0 0 0 = Some 0"
    unfolding e [symmetric] d(3) d(2) const_param_simps z by (simp add: fdiv_def)
  show "bget (dbg_energy d) 1 0 0 0 = Some (3832471 / 19440)"
    unfolding e [symmetric] d(3) d(2) const_param_simps g s(1-6,8)
    by (simp add: fdiv_def power2_eq_square)
  show "bget (dbg_energy d) 2 0 0 0 = Some (91501 / 9720)"
    unfolding e [symmetric] d(3) d(2) const_param_simps g s(1-6,8)
    by (simp add: fdiv_def power2_eq_square)
  show "bget (dbg_energy d) 3 0 0 0 = Some 0"
    unfolding e [symmetric] d(3) d(2) const_param_simps g s(1-6,8)
    by (simp add: fdiv_def power2_eq_square)
qed

lemma example_motive_values_ends:
  assumes m: "init no_registry flat_gradients (NdArray example_cycle) (1204 / 1000) = Inr m"
    and run: "motive_energy_per_km m (DataArray (const_param 10000))
     (DataArray (const_param 0.006)) (DataArray (const_param 0.6)) (DataArray (const_param 8))
     (DataArray (const_param 0.4)) (DataArray (const_param re)) (DataArray (const_param mp))
     False = Inr (Energy out)"
  shows "bget out 0 0 0 0 = Some (- (min 0 (mp * 1000)) * 9 / 40)"
    "bget out 4 0 0 0 = Some (- (min 0 (mp * 1000)) * 9 / 40)"
proof -
  obtain out' where o: "Energy out = Energy out'"
    "\<And>t y p s. bget out' t y p s =
       fdiv (fdiv (fdiv (Some (
           max ((pget (DataArray (const_param 10000)) t y p s
                   * pget (DataArray (const_param 0.006)) t y p s * 9.81 * 1
                 + pget (DataArray (const_param 8)) t y p s
                     * pget (DataArray (const_param 0.6)) t y p s * rho_air m / 2
                     * (bget (velocity m) t y p s) ^ 2
                 + pget (DataArray (const_param 10000)) t y p s * 9.81
                     * sin (bget (gradient m) t y p s)
                 + bget (acceleration m) t y p s * pget (DataArray (const_param 10000)) t y p s)
                * bget (velocity m) t y p s) 0
         - min (max ((if bget (acceleration m) t y p s
                           * pget (DataArray (const_param 10000)) t y p s < 0
                      then bget (acceleration m) t y p s
                           * pget (DataArray (const_param 10000)) t y p s * - 1 else 0)
                     * pget (DataArray (const_param re)) t y p s * bget (velocity m) t y p s) 0)
               (pget (DataArray (const_param mp)) t y p s * 1000)))
          ((\<Sum>t\<leftarrow>[0..<n0 (velocity m)]. item (velocity m) t 0 0 s) / 1000))
          (pget (DataArray (const_param 0.4)) t y p s)) 1000"
    by (rule motive_energy_value [OF m run]) (rule that)
  from o(1) have e: "out' = out" by simp
  note z = example_series_ends [OF m]
  have d: "(\<Sum>t\<leftarrow>[0..<n0 (velocity m)]. item (velocity m) t 0 0 0) = 100 / 9"
    unfolding example_velocity(1) [OF m] by (rule example_distance [OF m])
  show "bget out 0 0 0 0 = Some (- (min 0 (mp * 1000)) * 9 / 40)"
    unfolding e [symmetric] o(2) const_param_simps d z
    by (simp add: fdiv_def)
  show "bget out 4 0 0 0 = Some (- (min 0 (mp * 1000)) * 9 / 40)"
    unfolding e [symmetric] o(2) const_param_simps d z
    by (simp add: fdiv_def)
qed



text \<open>
  Claim C3, as amended. For every input on which both modes succeed, at every time step
  and vehicle variant: the total power of the debug mode is the sum of its rolling, air,
  gradient and inertia components clipped at 0, and its energy component is that total
  power divided by \<open>ttw_efficiency\<close> and by 1000. The result of the normal mode at that
  time step (it is not summed over time) is the total power recomputed from the
  components, minus the recuperated power recomputed from the braking component
  (\<open>braking * recuperation_efficiency\<close> clipped to \<open>[0, motor_power * 1000]\<close>), divided
  by the distance in km, by \<open>ttw_efficiency\<close> and by 1000. Where the recuperation
  efficiency is 0 and the motor power is not negative, it is the energy component
  divided by the distance (in exact arithmetic, where the order of the divisions is
  immaterial).
\<close>

theorem debug_components_give_normal_energy:
  assumes "init gsd gg cycle_in rho = Inr m"
    and "motive_energy_per_km m dm rr dc fa ttw rec mp False = Inr (Energy out)"
    and "motive_energy_per_km m dm rr dc fa ttw rec mp True = Inr (Debug d)"
  shows "\<forall>t y p s.
     bget (dbg_total_power d) t y p s =
       max (bget (dbg_rolling_resistance d) t y p s + bget (dbg_air_resistance d) t y p s
            + bget (dbg_gradient_resistance d) t y p s + bget (dbg_inertia d) t y p s) 0 \<and>
     bget (dbg_energy d) t y p s =
       fdiv (fdiv (Some (bget (dbg_total_power d) t y p s)) (pget ttw t y p s)) 1000 \<and>
     bget out t y p s =
       fdiv (fdiv (fdiv (Some (bget (dbg_total_power d) t y p s
               - min (max (bget (dbg_braking_loss d) t y p s * pget rec t y p s) 0)
                     (pget mp t y p s * 1000)))
          ((\<Sum>t\<leftarrow>[0..<n0 (velocity m)]. item (velocity m) t 0 0 s) / 1000))
          (pget ttw t y p s)) 1000 \<and>
     (pget rec t y p s = 0 \<and> 0 \<le> pget mp t y p s \<longrightarrow>
        bget out t y p s =
          fdiv (bget (dbg_energy d) t y p s)
            ((\<Sum>t\<leftarrow>[0..<n0 (velocity m)]. item (velocity m) t 0 0 s) / 1000))"
proof -
  obtain out' where o: "Energy out = Energy out'"
    "\<And>t y p s. bget out' t y p s =
       fdiv (fdiv (fdiv (Some (
           max ((pget dm t y p s * pget rr t y p s * 9.81 * 1
                 + pget fa t y p s * pget dc t y p s * rho_air m / 2
                     * (bget (velocity m) t y p s) ^ 2
                 + pget dm t y p s * 9.81 * sin (bget (gradient m) t y p s)
                 + bget (acceleration m) t y p s * pget dm t y p s)
                * bget (velocity m) t y p s) 0
         - min (max ((if bget (acceleration m) t y p s * pget dm t y p s < 0
                      then bget (acceleration m) t y p s * pget dm t y p s * - 1 else 0)
                     * pget rec t y p s * bget (velocity m) t y p s) 0)
               (pget mp t y p s * 1000)))
          ((\<Sum>t\<leftarrow>[0..<n0 (velocity m)]. item (velocity m) t 0 0 s) / 1000))
          (pget ttw t y p s)) 1000"
    by (rule motive_energy_value [OF assms(1,2)]) (rule that)
  obtain d' where d: "Debug d = Debug d'"
    "\<And>t y p s. bget (dbg_total_power d') t y p s =
       max (bget (dbg_rolling_resistance d') t y p s + bget (dbg_air_resistance d') t y p s
            + bget (dbg_gradient_resistance d') t y p s + bget (dbg_inertia d') t y p s) 0"
    "\<And>t y p s. bget (dbg_total_power d') t y p s =
       max ((pget dm t y p s * pget rr t y p s * 9.81 * 1
                 + pget fa t y p s * pget dc t y p s * rho_air m / 2
                     * (bget (velocity m) t y p s) ^ 2
                 + pget dm t y p s * 9.81 * sin (bget (gradient m) t y p s)
                 + bget (acceleration m) t y p s * pget dm t y p s)
                * bget (velocity m) t y p s) 0"
    "\<And>t y p s. bget (dbg_braking_loss d') t y p s =
       (if bget (acceleration m) t y p s * pget dm t y p s < 0
        then bget (acceleration m) t y p s * pget dm t y p s * - 1 else 0)
       * bget (velocity m) t y p s"
    "\<And>t y p s. bget (dbg_energy d') t y p s =
        fdiv (fdiv (Some (bget (dbg_total_power d') t y p s)) (pget ttw t y p s)) 1000"
    by (rule motive_debug_value [OF assms(3)]) (rule that)
  from o(1) have eo: "out' = out" by simp
  from d(1) have ed: "d' = d" by simp
  note tp = d(2) [unfolded ed]
  note en = d(5) [unfolded ed]
  have bl: "bget (dbg_braking_loss d) t y p s * pget rec t y p s =
      (if bget (acceleration m) t y p s * pget dm t y p s < 0
       then bget (acceleration m) t y p s * pget dm t y p s * - 1 else 0)
      * pget rec t y p s * bget (velocity m) t y p s" for t y p s
    unfolding d(4) [unfolded ed] by (simp only: mult.assoc mult.commute [of "pget rec t y p s"])
  have out: "bget out t y p s =
       fdiv (fdiv (fdiv (Some (bget (dbg_total_power d) t y p s
               - min (max (bget (dbg_braking_loss d) t y p s * pget rec t y p s) 0)
                     (pget mp t y p s * 1000)))
          ((\<Sum>t\<leftarrow>[0..<n0 (velocity m)]. item (velocity m) t 0 0 s) / 1000))
          (pget ttw t y p s)) 1000" for t y p s
    unfolding bl d(3) [unfolded ed] o(2) [unfolded eo] ..
  have norec: "bget out t y p s =
          fdiv (bget (dbg_energy d) t y p s)
            ((\<Sum>t\<leftarrow>[0..<n0 (velocity m)]. item (velocity m) t 0 0 s) / 1000)"
    if "pget rec t y p s = 0 \<and> 0 \<le> pget mp t y p s" for t y p s
  proof -
    from that have "min (max (bget (dbg_braking_loss d) t y p s * pget rec t y p s) 0)
                     (pget mp t y p s * 1000) = 0"
      by simp
    then show ?thesis
      unfolding out en by (simp add: fdiv_order)
  qed
  show ?thesis
    by (intro allI conjI impI) (rule tp en out | erule norec)+
qed



theorem debug_components_give_normal_energy_witness:
  "\<exists>m out d out0 d0.
     init no_registry flat_gradients (NdArray example_cycle) (1204 / 1000) = Inr m \<and>
     motive_energy_per_km m (DataArray (const_param 10000))
       (DataArray (const_param 0.006)) (DataArray (const_param 0.6)) (DataArray (const_param 8))
       (DataArray (const_param 0.4)) (DataArray (const_param 1)) (DataArray (const_param 100))
       False = Inr (Energy out) \<and>
     motive_energy_per_km m (DataArray (const_param 10000))
       (DataArray (const_param 0.006)) (DataArray (const_param 0.6)) (DataArray (const_param 8))
       (DataArray (const_param 0.4)) (DataArray (const_param 1)) (DataArray (const_param 100))
       True = Inr (Debug d) \<and>
     bget out 3 0 0 0 =
       fdiv (fdiv (fdiv (Some (bget (dbg_total_power d) 3 0 0 0
               - min (max (bget (dbg_braking_loss d) 3 0 0 0 * 1) 0) (100 * 1000)))
          (100 / 9 / 1000)) 0.4) 1000 \<and>
     motive_energy_per_km m (DataArray (const_param 10000))
       (DataArray (const_param 0.006)) (DataArray (const_param 0.6)) (DataArray (const_param 8))
       (DataArray (const_param 0.4)) (DataArray (const_param 0)) (DataArray (const_param 0))
       False = Inr (Energy out0) \<and>
     motive_energy_per_km m (DataArray (const_param 10000))
       (DataArray (const_param 0.006)) (DataArray (const_param 0.6)) (DataArray (const_param 8))
       (DataArray (const_param 0.4)) (DataArray (const_param 0)) (DataArray (const_param 0))
       True = Inr (Debug d0) \<and>
     bget out0 2 0 0 0 = fdiv (bget (dbg_energy d0) 2 0 0 0) (100 / 9 / 1000)"
proof -
  obtain m where m: "init no_registry flat_gradients (NdArray example_cycle) (1204 / 1000) = Inr m"
    using example_init_ok by blast
  from example_motive_ok [OF m, of 1 100] obtain out where o:
    "motive_energy_per_km m (DataArray (const_param 10000))
       (DataArray (const_param 0.006)) (DataArray (const_param 0.6)) (DataArray (const_param 8))
       (DataArray (const_param 0.4)) (DataArray (const_param 1)) (DataArray (const_param 100))
       False = Inr (Energy out)"
    by blast
  from example_debug_ok [OF m, of "DataArray (const_param 1)" "DataArray (const_param 100)"]
  obtain d where d:
    "motive_energy_per_km m (DataArray (const_param 10000))
       (DataArray (const_param 0.006)) (DataArray (const_param 0.6)) (DataArray (const_param 8))
       (DataArray (const_param 0.4)) (DataArray (const_param 1)) (DataArray (const_param 100))
       True = Inr (Debug d)"
    by blast
  from example_motive_ok [OF m, of 0 0] obtain out0 where o0:
    "motive_energy_per_km m (DataArray (const_param 10000))
       (DataArray (const_param 0.006)) (DataArray (const_param 0.6)) (DataArray (const_param 8))
       (DataArray (const_param 0.4)) (DataArray (const_param 0)) (DataArray (const_param 0))
       False = Inr (Energy out0)"
    by blast
  from example_debug_ok [OF m, of "DataArray (const_param 0)" "DataArray (const_param 0)"]
  obtain d0 where d0:
    "motive_energy_per_km m (DataArray (const_param 10000))
       (DataArray (const_param 0.006)) (DataArray (const_param 0.6)) (DataArray (const_param 8))
       (DataArray (const_param 0.4)) (DataArray (const_param 0)) (DataArray (const_param 0))
       True = Inr (Debug d0)"
    by blast
  have dist: "(\<Sum>t\<leftarrow>[0..<n0 (velocity m)]. item (velocity m) t 0 0 0) = 100 / 9"
    unfolding example_velocity(1) [OF m] by (rule example_distance [OF m])
  from debug_components_give_normal_energy [OF m o d, rule_format, of 3 0 0 0]
  have 1: "bget out 3 0 0 0 =
       fdiv (fdiv (fdiv (Some (bget (dbg_total_power d) 3 0 0 0
               - min (max (bget (dbg_braking_loss d) 3 0 0 0 * 1) 0) (100 * 1000)))
          (100 / 9 / 1000)) 0.4) 1000"
    unfolding const_param_simps dist by blast
  have zero: "pget (DataArray (const_param 0)) 2 0 0 0 = 0 \<and>
      0 \<le> pget (DataArray (const_param 0)) 2 0 0 0"
    unfolding const_param_simps by simp
  from debug_components_give_normal_energy [OF m o0 d0, rule_format, of 2 0 0 0] zero
  have "bget out0 2 0 0 0 = fdiv (bget (dbg_energy d0) 2 0 0 0)
      ((\<Sum>t\<leftarrow>[0..<n0 (velocity m)]. item (velocity m) t 0 0 0) / 1000)"
    by blast
  then have 2: "bget out0 2 0 0 0 = fdiv (bget (dbg_energy d0) 2 0 0 0) (100 / 9 / 1000)"
    unfolding dist .
  show ?thesis
    by (intro exI conjI) (rule m o d 1 o0 d0 2)+
qed


text \<open>
  The claim as stated fails: with full recuperation and a 100 kW motor, the debug
  energies of the example summed over time and divided by the distance differ from every
  element of the result of the normal mode, and from their sum.
\<close>

theorem debug_sum_differs_counterexample:
  "\<exists>m out d.
     init no_registry flat_gradients (NdArray example_cycle) (1204 / 1000) = Inr m \<and>
     motive_energy_per_km m (DataArray (const_param 10000))
       (DataArray (const_param 0.006)) (DataArray (const_param 0.6)) (DataArray (const_param 8))
       (DataArray (const_param 0.4)) (DataArray (const_param 1)) (DataArray (const_param 100))
       False = Inr (Energy out) \<and>
     motive_energy_per_km m (DataArray (const_param 10000))
       (DataArray (const_param 0.006)) (DataArray (const_param 0.6)) (DataArray (const_param 8))
       (DataArray (const_param 0.4)) (DataArray (const_param 1)) (DataArray (const_param 100))
       True = Inr (Debug d) \<and>
     map (\<lambda>t. item (dbg_energy d) t 0 0 0) [0, 1, 2, 3, 4] =
       [Some 0, Some (3832471 / 19440), Some (91501 / 9720), Some 0, Some 0] \<and>
     map (\<lambda>t. item out t 0 0 0) [0, 1, 2, 3, 4] =
       [Some 0, Some (3832471 / 216), Some (91501 / 108), Some (- (156250 / 9)), Some 0] \<and>
     (0 + 3832471 / 19440 + 91501 / 9720 + 0 + 0) / (100 / 9 / 1000)
       \<noteq> (0 + 3832471 / 216 + 91501 / 108 + - (156250 / 9) + (0::real)) \<and>
     (0 + 3832471 / 19440 + 91501 / 9720 + 0 + 0) / (100 / 9 / 1000)
       \<notin> {0, 3832471 / 216, 91501 / 108, - (156250 / 9 :: real)}"
proof -
  obtain m where m: "init no_registry flat_gradients (NdArray example_cycle) (1204 / 1000) = Inr m"
    using example_init_ok by blast
  from example_motive_ok [OF m, of 1 100] obtain out where o:
    "motive_energy_per_km m (DataArray (const_param 10000))
       (DataArray (const_param 0.006)) (DataArray (const_param 0.6)) (DataArray (const_param 8))
       (DataArray (const_param 0.4)) (DataArray (const_param 1)) (DataArray (const_param 100))
       False = Inr (Energy out)" "shape out = (5, 1, 1, 6)"
    by blast
  from example_debug_ok [OF m, of "DataArray (const_param 1)" "DataArray (const_param 100)"]
  obtain d where d:
    "motive_energy_per_km m (DataArray (const_param 10000))
       (DataArray (const_param 0.006)) (DataArray (const_param 0.6)) (DataArray (const_param 8))
       (DataArray (const_param 0.4)) (DataArray (const_param 1)) (DataArray (const_param 100))
       True = Inr (Debug d)" "shape (dbg_energy d) = (5, 1, 1, 6)"
    by blast
  have dv: "map (\<lambda>t. item (dbg_energy d) t 0 0 0) [0, 1, 2, 3, 4] =
       [Some 0, Some (3832471 / 19440), Some (91501 / 9720), Some 0, Some 0]"
    using example_debug_values [OF m d(1)] unfolding bget_item_5116 [OF d(2)] by simp
  have ov: "map (\<lambda>t. item out t 0 0 0) [0, 1, 2, 3, 4] =
       [Some 0, Some (3832471 / 216), Some (91501 / 108), Some (- (156250 / 9)), Some 0]"
    using example_motive_values [OF m o(1)] example_motive_values_ends [OF m o(1)]
    unfolding bget_item_5116 [OF o(2)] by simp
  have ar: "(0 + 3832471 / 19440 + 91501 / 9720 + 0 + 0) / (100 / 9 / 1000)
       \<noteq> (0 + 3832471 / 216 + 91501 / 108 + - (156250 / 9) + (0::real))"
    "(0 + 3832471 / 19440 + 91501 / 9720 + 0 + 0) / (100 / 9 / 1000)
       \<notin> {0, 3832471 / 216, 91501 / 108, - (156250 / 9 :: real)}"
    by simp_all
  show ?thesis
    by (intro exI conjI) (rule m o(1) d(1) dv ov ar)+
qed
















subsection \<open>Claims about failures\<close>








text \<open>
  Claim C9. With the declared defaults \<^verbatim>\<open>recuperation_efficiency=0\<close> and
  \<^verbatim>\<open>motor_power=0\<close>, plain numbers, the normal mode does not return: line 190 reads
  \<^verbatim>\<open>recuperation_efficiency.values\<close>, and a number has no such attribute. The debug
  mode, which does not read the two arguments, returns on the same input.
\<close>

theorem default_arguments_raise_AttributeError:
  "\<exists>m d.
     init no_registry flat_gradients (NdArray example_cycle) (1204 / 1000) = Inr m \<and>
     motive_energy_per_km m (DataArray (const_param 10000))
       (DataArray (const_param 0.006)) (DataArray (const_param 0.6)) (DataArray (const_param 8))
       (DataArray (const_param 0.4)) (Num 0) (Num 0) False = Inl AttributeError \<and>
     motive_energy_per_km m (DataArray (const_param 10000))
       (DataArray (const_param 0.006)) (DataArray (const_param 0.6)) (DataArray (const_param 8))
       (DataArray (const_param 0.4)) (Num 0) (Num 0) True = Inr (Debug d)"
proof -
  obtain m where m: "init no_registry flat_gradients (NdArray example_cycle) (1204 / 1000) = Inr m"
    using example_init_ok by blast
  have t: "bdim 1 (n0 (velocity m)) = Some 5"
    by (simp add: example_velocity(1) [OF m])
  have sh: "shape (const_param c) = (6, 1, 1, 1)" for c
    by (rule const_param_simps)
  have size: "(6::nat) = 6 \<or> (6::nat) = 1"
    by simp
  obtain rolling air gr inertia x tp where f:
    "rolling_resistance_of m (DataArray (const_param 10000)) (DataArray (const_param 0.006))
       = Inr rolling"
    "air_resistance_of m (DataArray (const_param 8)) (DataArray (const_param 0.6)) = Inr air"
    "gradient_resistance_of m (DataArray (const_param 10000)) = Inr gr"
    "inertia_of m (DataArray (const_param 10000)) = Inr inertia"
    "total_resistance_of rolling air gr inertia = Inr x"
    "clipped_total_power m x = Inr tp"
    by (rule motive_forces_ok [OF m example_series(9) [OF m] sh sh sh sh size t]) (rule that)
  have r: "recuperated_power_of m bl (Num 0) (Num 0) = Inl AttributeError" for bl
    by (simp add: recuperated_power_of_def py_values_def)
  have 1: "motive_energy_per_km m (DataArray (const_param 10000))
       (DataArray (const_param 0.006)) (DataArray (const_param 0.6)) (DataArray (const_param 8))
       (DataArray (const_param 0.4)) (Num 0) (Num 0) False = Inl AttributeError"
    unfolding motive_energy_per_km_def sum_axis0_0_0_init [OF m] bnd_Inr Let_def f r
    by simp
  from example_debug_ok [OF m, of "Num 0" "Num 0"] obtain d where 2:
    "motive_energy_per_km m (DataArray (const_param 10000))
       (DataArray (const_param 0.006)) (DataArray (const_param 0.6)) (DataArray (const_param 8))
       (DataArray (const_param 0.4)) (Num 0) (Num 0) True = Inr (Debug d)"
    by blast
  from m 1 2 show ?thesis by blast
qed

end
